theory Spec2Isabelle
  imports Complex_Main
begin

section \<open>Python values used by the bot\<close>

text \<open>
  A Python \<open>str\<close> is a sequence of Unicode code points, and \<open>len\<close> counts code points.
  It is modelled as a list of code points, so that the length checks of the intake
  handlers count what the source counts. \<open>py ''abc''\<close> writes an ASCII literal.
\<close>

type_synonym pystr = "nat list"

definition py :: "string \<Rightarrow> pystr" where
  "py cs = map of_char cs"

datatype py_error =
  ValueError | OverflowError | TypeError | IndexError | KeyError | AttributeError | TransportError

text \<open>
  \<open>str.strip()\<close> with no argument removes leading and trailing whitespace; the set below
  is the one \<open>str.isspace\<close> uses.
\<close>

definition isspace :: "nat \<Rightarrow> bool" where
  "isspace c \<longleftrightarrow>
     (9 \<le> c \<and> c \<le> 13) \<or> (28 \<le> c \<and> c \<le> 32) \<or> c = 133 \<or> c = 160 \<or> c = 5760 \<or>
     (8192 \<le> c \<and> c \<le> 8202) \<or> c = 8232 \<or> c = 8233 \<or> c = 8239 \<or> c = 8287 \<or> c = 12288"

definition strip :: "pystr \<Rightarrow> pystr" where
  "strip s = rev (dropWhile isspace (rev (dropWhile isspace s)))"

text \<open>\<open>s.split(sep)\<close> for a separator of one character.\<close>

fun split_on :: "nat \<Rightarrow> pystr \<Rightarrow> pystr list" where
  "split_on sep [] = [[]]"
| "split_on sep (c # cs) =
     (if c = sep then [] # split_on sep cs
      else (case split_on sep cs of [] \<Rightarrow> [[c]] | p # ps \<Rightarrow> (c # p) # ps))"

text \<open>\<open>s.replace(c, '')\<close> for a single character \<open>c\<close>.\<close>

definition remove_char :: "nat \<Rightarrow> pystr \<Rightarrow> pystr" where
  "remove_char c s = filter (\<lambda>x. x \<noteq> c) s"

text \<open>
  \<open>int(s)\<close> and \<open>float(s)\<close> also drop surrounding whitespace, but not the four
  separator controls (codes 28 to 31) that \<open>str.strip\<close> removes.
\<close>

definition isspace_numeric :: "nat \<Rightarrow> bool" where
  "isspace_numeric c \<longleftrightarrow> isspace c \<and> \<not> (28 \<le> c \<and> c \<le> 31)"

definition strip_numeric :: "pystr \<Rightarrow> pystr" where
  "strip_numeric s = rev (dropWhile isspace_numeric (rev (dropWhile isspace_numeric s)))"

text \<open>
  The numeric literals \<open>int\<close> and \<open>float\<close> accept: decimal digits, with single
  underscores allowed between digits. Only the ASCII digits are modelled; on a string
  with other Unicode decimal digits the model answers \<open>None\<close> (a \<open>ValueError\<close>).
  The texts parsed here are short (callback data, a post time, a price typed into a
  chat), far below the length at which \<open>int\<close> refuses a literal for its size.
\<close>

definition isdigit :: "nat \<Rightarrow> bool" where
  "isdigit c \<longleftrightarrow> 48 \<le> c \<and> c \<le> 57"

fun digitpart :: "pystr \<Rightarrow> nat list option" where
  "digitpart [] = None"
| "digitpart [c] = (if isdigit c then Some [c - 48] else None)"
| "digitpart (c # d # cs) =
     (if \<not> isdigit c then None
      else if d = 95 then map_option (\<lambda>ds. (c - 48) # ds) (digitpart cs)
      else map_option (\<lambda>ds. (c - 48) # ds) (digitpart (d # cs)))"

definition decimal :: "nat list \<Rightarrow> nat" where
  "decimal ds = foldl (\<lambda>a d. 10 * a + d) 0 ds"

text \<open>An optional sign in front of the rest: \<open>(negative, rest)\<close>.\<close>

fun take_sign :: "pystr \<Rightarrow> bool \<times> pystr" where
  "take_sign [] = (False, [])"
| "take_sign (c # cs) =
     (if c = 45 then (True, cs) else if c = 43 then (False, cs) else (False, c # cs))"

text \<open>\<open>int(s)\<close> in base ten; \<open>None\<close> is the \<open>ValueError\<close>.\<close>

definition py_int :: "pystr \<Rightarrow> int option" where
  "py_int s =
     (case take_sign (strip_numeric s) of (neg, body) \<Rightarrow>
        (case digitpart body of
           None \<Rightarrow> None
         | Some ds \<Rightarrow> Some (if neg then - int (decimal ds) else int (decimal ds))))"

section \<open>Naive datetimes\<close>

text \<open>
  The scheduler uses naive \<open>datetime\<close> values and moves them by whole days only. The date
  is kept as its proleptic Gregorian ordinal (day 1 is 0001-01-01), which is what
  \<open>datetime + timedelta\<close> computes with; the largest date, 9999-12-31, has ordinal
  3652059, and a sum that leaves the range raises \<open>OverflowError\<close>.
\<close>

record datetime =
  ordinal :: int
  hour :: nat
  minute :: nat
  second :: nat
  microsecond :: nat

definition MAXORDINAL :: int where
  "MAXORDINAL = 3652059"

definition dt_less :: "datetime \<Rightarrow> datetime \<Rightarrow> bool" where
  "dt_less a b \<longleftrightarrow>
     ordinal a < ordinal b \<or> (ordinal a = ordinal b \<and>
       (hour a < hour b \<or> (hour a = hour b \<and>
         (minute a < minute b \<or> (minute a = minute b \<and>
           (second a < second b \<or> (second a = second b \<and> microsecond a < microsecond b)))))))"

definition dt_le :: "datetime \<Rightarrow> datetime \<Rightarrow> bool" where
  "dt_le a b \<longleftrightarrow> dt_less a b \<or> a = b"

text \<open>\<open>d.replace(hour=h, minute=m, second=0, microsecond=0)\<close>.\<close>

definition replace_time :: "datetime \<Rightarrow> int \<Rightarrow> int \<Rightarrow> py_error + datetime" where
  "replace_time d h m =
     (if 0 \<le> h \<and> h \<le> 23 \<and> 0 \<le> m \<and> m \<le> 59
      then Inr (d\<lparr>hour := nat h, minute := nat m, second := 0, microsecond := 0\<rparr>)
      else Inl ValueError)"

text \<open>\<open>d + timedelta(days=k)\<close>.\<close>

definition add_days :: "datetime \<Rightarrow> int \<Rightarrow> py_error + datetime" where
  "add_days d k =
     (if k < - 999999999 \<or> 999999999 < k then Inl OverflowError
      else if 1 \<le> ordinal d + k \<and> ordinal d + k \<le> MAXORDINAL
      then Inr (d\<lparr>ordinal := ordinal d + k\<rparr>)
      else Inl OverflowError)"

section \<open>Next-fire computation (utils/helpers.py)\<close>

text \<open>
  \<open>hour, minute = map(int, post_time_str.split(':'))\<close> under a bare \<open>except\<close>: any
  failure (a part that is no integer, fewer or more than two parts) gives 9:00.
\<close>

definition parse_post_time :: "pystr \<Rightarrow> int \<times> int" where
  "parse_post_time post_time_str =
     (case map py_int (split_on 58 post_time_str) of
        [Some h, Some m] \<Rightarrow> (h, m)
      | _ \<Rightarrow> (9, 0))"

text \<open>
  \<open>calculate_next_post_time\<close>; the reading of \<open>datetime.now()\<close> is the first argument.
  The \<open>replace\<close> is outside the \<open>try\<close>, so an hour or minute out of range raises.
\<close>

definition calculate_next_post_time :: "datetime \<Rightarrow> int \<Rightarrow> pystr \<Rightarrow> py_error + datetime" where
  "calculate_next_post_time now interval_days post_time_str =
     (case parse_post_time post_time_str of (h, m) \<Rightarrow>
        (case replace_time now h m of
           Inl e \<Rightarrow> Inl e
         | Inr next_post \<Rightarrow>
             (case (if dt_le next_post now then add_days next_post 1 else Inr next_post) of
                Inl e \<Rightarrow> Inl e
              | Inr next_post' \<Rightarrow> add_days next_post' interval_days)))"

text \<open>A post time as the schedule dialogue writes it: two digits, a colon, two digits.\<close>

definition two_digits :: "nat \<Rightarrow> pystr" where
  "two_digits n = [48 + n div 10, 48 + n mod 10]"

definition hhmm :: "nat \<Rightarrow> nat \<Rightarrow> pystr" where
  "hhmm h m = two_digits h @ [58] @ two_digits m"

section \<open>Floats\<close>

text \<open>
  A Python \<open>float\<close> is a finite number, an infinity or a NaN. The finite values are kept
  as rationals: the rounding of \<open>float(s)\<close> to binary64 is not modelled, so \<open>Finite q\<close>
  is exact only where the decimal text denotes a binary64 number (such as the integers
  below \<open>2^53\<close>).
\<close>

datatype pyfloat = Finite rat | PosInf | NegInf | NaN

text \<open>The comparisons \<open>x <= 0\<close> and \<open>x > c\<close>; every comparison with a NaN is false.\<close>

fun float_le :: "pyfloat \<Rightarrow> rat \<Rightarrow> bool" where
  "float_le (Finite q) c = (q \<le> c)"
| "float_le PosInf c = False"
| "float_le NegInf c = True"
| "float_le NaN c = False"

fun float_gt :: "pyfloat \<Rightarrow> rat \<Rightarrow> bool" where
  "float_gt (Finite q) c = (q > c)"
| "float_gt PosInf c = True"
| "float_gt NegInf c = False"
| "float_gt NaN c = False"

text \<open>Truth value of an optional float (\<open>if price:\<close>): \<open>None\<close> and zero are false.\<close>

fun truthy_float :: "pyfloat option \<Rightarrow> bool" where
  "truthy_float None = False"
| "truthy_float (Some (Finite q)) = (q \<noteq> 0)"
| "truthy_float (Some _) = True"

text \<open>Truth value of an optional string: \<open>None\<close> and the empty string are false.\<close>

fun truthy_str :: "pystr option \<Rightarrow> bool" where
  "truthy_str None = False"
| "truthy_str (Some s) = (s \<noteq> [])"

text \<open>
  \<open>float(s)\<close>. Surrounding whitespace is dropped, then the text is an optional sign followed by \<open>inf\<close>,
  \<open>infinity\<close> or \<open>nan\<close> in any letter case, or by a decimal number: digits with an
  optional point, and an optional exponent. \<open>None\<close> is the \<open>ValueError\<close>.
\<close>

definition lower :: "nat \<Rightarrow> nat" where
  "lower c = (if 65 \<le> c \<and> c \<le> 90 then c + 32 else c)"

definition mantissa :: "pystr \<Rightarrow> rat option" where
  "mantissa s =
     (let ip = takeWhile (\<lambda>c. c \<noteq> 46) s; rest = dropWhile (\<lambda>c. c \<noteq> 46) s
      in if rest = [] then map_option (\<lambda>ds. of_nat (decimal ds)) (digitpart ip)
         else if tl rest = [] then map_option (\<lambda>ds. of_nat (decimal ds)) (digitpart ip)
         else (case digitpart (tl rest) of
                 None \<Rightarrow> None
               | Some fs \<Rightarrow>
                   (if ip = [] then Some (of_nat (decimal fs) / 10 ^ length fs)
                    else map_option (\<lambda>ds. of_nat (decimal (ds @ fs)) / 10 ^ length fs)
                           (digitpart ip))))"

definition float_number :: "pystr \<Rightarrow> rat option" where
  "float_number s =
     (let m = takeWhile (\<lambda>c. c \<noteq> 101 \<and> c \<noteq> 69) s;
          rest = dropWhile (\<lambda>c. c \<noteq> 101 \<and> c \<noteq> 69) s
      in case mantissa m of
           None \<Rightarrow> None
         | Some q \<Rightarrow>
             (if rest = [] then Some q
              else (case take_sign (tl rest) of (neg, body) \<Rightarrow>
                      (case digitpart body of
                         None \<Rightarrow> None
                       | Some ds \<Rightarrow>
                           Some (if neg then q / 10 ^ decimal ds else q * 10 ^ decimal ds)))))"

definition py_float :: "pystr \<Rightarrow> pyfloat option" where
  "py_float s =
     (case take_sign (strip_numeric s) of (neg, body) \<Rightarrow>
        (if map lower body = py ''inf'' \<or> map lower body = py ''infinity''
         then Some (if neg then NegInf else PosInf)
         else if map lower body = py ''nan'' then Some NaN
         else map_option (\<lambda>q. Finite (if neg then - q else q)) (float_number body)))"

section \<open>Caption and keyboard rendering (utils/helpers.py)\<close>

text \<open>
  Two library functions are parameters of the model: \<open>format(price, ',.2f')\<close>, the
  thousands-separated two-decimal rendering of a float, and \<open>str.title()\<close>.
\<close>

record builtins =
  format_2f :: "pyfloat \<Rightarrow> pystr"
  str_title :: "pystr \<Rightarrow> pystr"

definition format_price :: "'b builtins_scheme \<Rightarrow> pyfloat \<Rightarrow> pystr" where
  "format_price B price = format_2f B price @ py '' Birr''"

text \<open>\<open>text.replace(char, '\\' + char)\<close>: a backslash (code 92) before every occurrence.\<close>

definition escape_char :: "nat \<Rightarrow> pystr \<Rightarrow> pystr" where
  "escape_char char s = concat (map (\<lambda>x. if x = char then [92, char] else [x]) s)"

definition special_chars :: "nat list" where
  "special_chars = py ''_*[]~`>#+=|{}!''"

definition escape_markdown :: "pystr option \<Rightarrow> pystr" where
  "escape_markdown text =
     (case text of
        None \<Rightarrow> []
      | Some t \<Rightarrow> foldl (\<lambda>t char. escape_char char t) t special_chars)"

text \<open>The emoji and rules of the captions, as code points.\<close>

definition shopping_bags :: pystr where "shopping_bags = [0x1F6CD, 0xFE0F]"
definition money_bag :: pystr where "money_bag = [0x1F4B0]"
definition bust :: pystr where "bust = [0x1F464]"
definition telephone :: pystr where "telephone = [0x1F4DE]"
definition open_folder :: pystr where "open_folder = [0x1F4C2]"
definition bullet :: pystr where "bullet = [0x2022]"
definition rule_line :: pystr where "rule_line = replicate 20 0x2501 @ [10, 10]"

text \<open>The seller lines, shared by both branches of the caption.\<close>

definition seller_lines :: "pystr option \<Rightarrow> pystr option \<Rightarrow> pystr" where
  "seller_lines seller_name seller_phone =
     (if truthy_str seller_name
      then bust @ py '' **'' @ escape_markdown seller_name @ py ''**'' @ [10] else [])
     @ (if truthy_str seller_phone
        then telephone @ py '' '' @ escape_markdown seller_phone @ [10] else [])"

definition field_line :: "'b builtins_scheme \<Rightarrow> pystr \<times> pystr \<Rightarrow> pystr" where
  "field_line B fv =
     (case fv of (field, v) \<Rightarrow>
        bullet @ py '' **'' @ str_title B (map (\<lambda>c. if c = 95 then 32 else c) field)
        @ py ''**: '' @ escape_markdown (Some v) @ [10])"

text \<open>
  \<open>format_product_caption\<close>. The argument \<open>engagement_stats\<close> is never read by the body
  and is left out. Each \<open>caption += ...\<close> is one \<open>let\<close>.
\<close>

definition format_product_caption ::
  "'b builtins_scheme \<Rightarrow> pystr option \<Rightarrow> pystr option \<Rightarrow> pyfloat option \<Rightarrow> pystr option \<Rightarrow>
   pystr option \<Rightarrow> pystr option \<Rightarrow> pystr \<Rightarrow> (pystr \<times> pystr) list option \<Rightarrow> bool \<Rightarrow> pystr" where
  "format_product_caption B title description price category seller_name seller_phone
     product_type category_fields for_channel =
     (if product_type = py ''custom_description'' then
        (if for_channel then escape_markdown description
         else
           (let caption = (if truthy_str title
                           then shopping_bags @ py '' **'' @ escape_markdown title @ py ''**'' @ [10]
                                @ rule_line
                           else []);
                caption = (if truthy_float price
                           then caption @ money_bag @ py '' **''
                                @ escape_markdown (Some (format_price B (the price)))
                                @ py ''**'' @ [10, 10]
                           else caption);
                caption = caption @ escape_markdown description;
                caption = (if truthy_str seller_name \<or> truthy_str seller_phone
                           then caption @ [10, 10] @ seller_lines seller_name seller_phone
                           else caption)
            in caption))
      else
        (let caption = shopping_bags @ py '' **'' @ escape_markdown title @ py ''**'' @ [10]
                       @ rule_line;
             caption = (if truthy_str description
                        then caption @ escape_markdown description @ [10, 10] else caption);
             caption = (case category_fields of
                          None \<Rightarrow> caption
                        | Some items \<Rightarrow>
                            (if items = [] then caption
                             else caption @ concat (map (field_line B) items) @ [10]));
             caption = (if truthy_float price
                        then caption @ money_bag @ py '' **''
                             @ escape_markdown (Some (format_price B (the price)))
                             @ py ''**'' @ [10]
                        else caption);
             caption = (if truthy_str category
                        then caption @ open_folder @ py '' '' @ escape_markdown category @ [10]
                        else caption);
             caption = (if truthy_str seller_name \<or> truthy_str seller_phone
                        then caption @ [10] @ seller_lines seller_name seller_phone
                        else caption)
         in caption))"

text \<open>
  The inline keyboard. A button is kept by what it does: the label of a like button is
  \<open>Like - n\<close> and its callback data \<open>like_<id>\<close>, and so on.
\<close>

datatype button =
  LikeButton int int
| SaveButton int int
| OrderButton int
| CustomButton pystr pystr
| PostToChannelButton int
| StatsButton int
| EditButton int
| MarkSoldButton int

definition create_product_keyboard ::
  "int \<Rightarrow> pystr option \<Rightarrow> (pystr \<times> pystr) option \<Rightarrow> bool \<Rightarrow> bool \<Rightarrow> int \<Rightarrow> int \<Rightarrow>
   bool \<Rightarrow> bool \<Rightarrow> bool \<Rightarrow> button list list" where
  "create_product_keyboard product_id seller_phone custom_button show_admin_buttons
     show_post_button likes_count saves_count like_enabled save_enabled order_enabled =
     (let buttons = [];
          buttons = (if like_enabled \<or> save_enabled
                     then (let row1 = (if like_enabled then [LikeButton product_id likes_count] else [])
                                      @ (if save_enabled then [SaveButton product_id saves_count] else [])
                           in if row1 \<noteq> [] then buttons @ [row1] else buttons)
                     else buttons);
          buttons = (if order_enabled then buttons @ [[OrderButton product_id]] else buttons);
          buttons = (case custom_button of
                       None \<Rightarrow> buttons
                     | Some (custom_text, custom_url) \<Rightarrow>
                         buttons @ [[CustomButton custom_text custom_url]]);
          buttons = (if show_post_button then buttons @ [[PostToChannelButton product_id]]
                     else buttons);
          buttons = (if show_admin_buttons
                     then buttons @ [[StatsButton product_id, EditButton product_id]]
                          @ [[MarkSoldButton product_id]]
                     else buttons)
      in buttons)"

section \<open>Storage (telegram_bot/models.py, database/db.py)\<close>

text \<open>
  The tables the modelled operations read and write, each a map from its key. A query
  that finds no row returns \<open>None\<close> where the source catches \<open>DoesNotExist\<close>, and is an
  error where it does not.
\<close>

record user =
  store_name :: "pystr option"
  username :: "pystr option"
  phone :: "pystr option"

record product =
  product_id :: int
  title :: "pystr option"
  description :: "pystr option"
  price :: "pyfloat option"
  category :: "pystr option"
  image_path :: pystr
  is_active :: bool
  likes_count :: int
  saves_count :: int
  orders_count :: int
  custom_button_text :: "pystr option"
  custom_button_url :: "pystr option"
  like_enabled :: bool
  save_enabled :: bool
  order_enabled :: bool

record engagement =
  liked :: bool
  saved :: bool

record post_schedule =
  schedule_id :: int
  seller_id :: int
  schedule_product_id :: int
  channel_username :: pystr
  interval_days :: int
  post_time :: pystr
  last_posted_at :: "datetime option"
  next_post_at :: "datetime option"

record database =
  users :: "int \<rightharpoonup> user"
  products :: "int \<rightharpoonup> product"
  engagements :: "int \<times> int \<rightharpoonup> engagement"
  schedules :: "int \<rightharpoonup> post_schedule"

datatype db_error = DoesNotExist

text \<open>
  \<open>toggle_like\<close>, one atomic transaction: the engagement row is fetched or created
  (not liked, not saved), its flag is flipped, then the product's counter follows the new
  flag. A missing product raises inside the transaction, which then changes nothing.
\<close>

definition toggle_like ::
  "int \<Rightarrow> int \<Rightarrow> database \<Rightarrow> db_error + (bool \<times> product \<times> database)" where
  "toggle_like user_id pid db =
     (let engagement = (case engagements db (user_id, pid) of
                          None \<Rightarrow> \<lparr>liked = False, saved = False\<rparr>
                        | Some e \<Rightarrow> e);
          engagement = engagement\<lparr>liked := \<not> liked engagement\<rparr>
      in case products db pid of
           None \<Rightarrow> Inl DoesNotExist
         | Some product \<Rightarrow>
             (let product =
                    (if liked engagement
                     then product\<lparr>likes_count := likes_count product + 1\<rparr>
                     else product\<lparr>likes_count := max 0 (likes_count product - 1)\<rparr>)
              in Inr (liked engagement, product,
                      db\<lparr>engagements := (engagements db)((user_id, pid) \<mapsto> engagement),
                         products := (products db)(pid \<mapsto> product)\<rparr>)))"

text \<open>Two toggles in succession by the same user on the same product.\<close>

definition toggle_like_twice ::
  "int \<Rightarrow> int \<Rightarrow> database \<Rightarrow> db_error + (bool \<times> product \<times> database)" where
  "toggle_like_twice user_id pid db =
     (case toggle_like user_id pid db of
        Inl e \<Rightarrow> Inl e
      | Inr (is_liked, product, db') \<Rightarrow> toggle_like user_id pid db')"

text \<open>Whether the user currently likes the product: no engagement row means no.\<close>

definition is_liked_by :: "database \<Rightarrow> int \<Rightarrow> int \<Rightarrow> bool" where
  "is_liked_by db user_id pid =
     (case engagements db (user_id, pid) of None \<Rightarrow> False | Some e \<Rightarrow> liked e)"

text \<open>
  The users who like a product, and the state in which every like counter equals their
  number: the state the toggles keep.
\<close>

definition likers :: "database \<Rightarrow> int \<Rightarrow> int set" where
  "likers db pid = {u. is_liked_by db u pid}"

definition likes_counted :: "database \<Rightarrow> bool" where
  "likes_counted db \<longleftrightarrow>
     (\<forall>pid p. products db pid = Some p \<longrightarrow>
        finite (likers db pid) \<and> likes_count p = int (card (likers db pid)))"

text \<open>\<open>update_schedule_post_time\<close>: a missing schedule is caught and nothing is written.\<close>

definition update_schedule_post_time ::
  "int \<Rightarrow> datetime option \<Rightarrow> datetime option \<Rightarrow> database \<Rightarrow> database" where
  "update_schedule_post_time sid last_posted next_post db =
     (case schedules db sid of
        None \<Rightarrow> db
      | Some schedule \<Rightarrow>
          db\<lparr>schedules := (schedules db)
                (sid \<mapsto> schedule\<lparr>last_posted_at := last_posted, next_post_at := next_post\<rparr>)\<rparr>)"

section \<open>Scheduled posting (features/scheduler.py)\<close>

text \<open>
  What the sweep does not own: the transport (\<open>bot.send_photo\<close> delivers or raises) and
  the clock that \<open>calculate_next_post_time\<close> reads when it is called for a schedule.
\<close>

record transport =
  send_photo :: "pystr \<Rightarrow> pystr \<Rightarrow> pystr \<Rightarrow> button list list \<Rightarrow> bool"
  clock_at :: "int \<Rightarrow> datetime"

datatype dispatch = Skipped | Raised py_error | Sent

text \<open>
  The first part of the loop body's \<open>try\<close>: load product and seller, skip a missing or
  inactive product, render, send. A missing seller makes \<open>seller.phone\<close> raise.
\<close>

definition dispatch_post ::
  "'b builtins_scheme \<Rightarrow> 't transport_scheme \<Rightarrow> post_schedule \<Rightarrow> database \<Rightarrow> dispatch" where
  "dispatch_post B T schedule db =
     (case products db (schedule_product_id schedule) of
        None \<Rightarrow> Skipped
      | Some product \<Rightarrow>
          (if \<not> is_active product then Skipped
           else
             (let caption = format_product_caption B (title product) (description product)
                              (price product) (category product) None None
                              (py ''standard'') None False;
                  custom_button =
                    (if truthy_str (custom_button_text product)
                        \<and> truthy_str (custom_button_url product)
                     then Some (the (custom_button_text product), the (custom_button_url product))
                     else None)
              in case users db (seller_id schedule) of
                   None \<Rightarrow> Raised AttributeError
                 | Some seller \<Rightarrow>
                     (let keyboard = create_product_keyboard (product_id product) (phone seller)
                                       custom_button False False (likes_count product)
                                       (saves_count product) (like_enabled product)
                                       (save_enabled product) (order_enabled product)
                      in if send_photo T (channel_username schedule) (image_path product)
                              caption keyboard
                         then Sent else Raised TransportError))))"

datatype log_entry = PostCompleted int int | PostError int py_error

text \<open>
  The whole loop body for a due schedule: after a delivered post the next time is
  computed and the schedule row is written; every exception is logged and swallowed.
\<close>

definition post_scheduled ::
  "'b builtins_scheme \<Rightarrow> 't transport_scheme \<Rightarrow> datetime \<Rightarrow> post_schedule \<Rightarrow> database \<Rightarrow>
   database \<times> log_entry list" where
  "post_scheduled B T now schedule db =
     (case dispatch_post B T schedule db of
        Skipped \<Rightarrow> (db, [])
      | Raised e \<Rightarrow> (db, [PostError (schedule_id schedule) e])
      | Sent \<Rightarrow>
          (case calculate_next_post_time (clock_at T (schedule_id schedule))
                  (interval_days schedule) (post_time schedule) of
             Inl e \<Rightarrow> (db, [PostError (schedule_id schedule) e])
           | Inr next_post \<Rightarrow>
               (update_schedule_post_time (schedule_id schedule) (Some now) (Some next_post) db,
                [PostCompleted (schedule_id schedule) (schedule_product_id schedule)])))"

text \<open>\<open>schedule.next_post_at and schedule.next_post_at <= now\<close>.\<close>

definition is_due :: "datetime \<Rightarrow> post_schedule \<Rightarrow> bool" where
  "is_due now schedule =
     (case next_post_at schedule of None \<Rightarrow> False | Some t \<Rightarrow> dt_le t now)"

text \<open>
  \<open>check_and_post_scheduled\<close>: the list is the result of \<open>get_active_schedules\<close>, the rows
  loaded before the loop starts; the loop runs over it in order.
\<close>

fun check_and_post_scheduled ::
  "'b builtins_scheme \<Rightarrow> 't transport_scheme \<Rightarrow> datetime \<Rightarrow> post_schedule list \<Rightarrow> database \<Rightarrow>
   database \<times> log_entry list" where
  "check_and_post_scheduled B T now [] db = (db, [])"
| "check_and_post_scheduled B T now (schedule # rest) db =
     (if is_due now schedule
      then (case post_scheduled B T now schedule db of
              (db', entries) \<Rightarrow>
                (case check_and_post_scheduled B T now rest db' of
                   (db'', entries') \<Rightarrow> (db'', entries @ entries')))
      else check_and_post_scheduled B T now rest db)"

section \<open>Product intake (features/products.py)\<close>

subsection \<open>Messages, the conversation context and the album buffer\<close>

datatype product_state =
  waiting_product_type | waiting_category | waiting_photo | waiting_main_image
| waiting_title | waiting_description | waiting_price | waiting_category_fields
| confirming | post_action

record photo_size =
  ps_file_id :: pystr

text \<open>
  What the handlers read of a Telegram message. \<open>msg_text\<close> and \<open>msg_photo\<close> are
  \<open>None\<close> when the message has no text or no photo: a text message sent by the bot
  itself has \<open>msg_photo = None\<close>.
\<close>

record message =
  msg_id :: int
  msg_from_user :: int
  msg_text :: "pystr option"
  msg_photo :: "photo_size list option"
  msg_media_group_id :: "pystr option"

record callback_query =
  cb_data :: pystr
  cb_message :: message

text \<open>An entry of \<open>collected_photos\<close> and an entry of the album buffer.\<close>

record collected_photo =
  original_path :: pystr
  file_id :: pystr
  media_group_id :: "pystr option"

record album_item =
  item_message :: message
  item_original_path :: pystr
  item_file_id :: pystr

text \<open>
  The conversation context of one user: the state tag and the data dictionary, one
  optional field per key the modelled handlers use (\<open>None\<close>: the key is absent).
\<close>

record fsm_context =
  current_state :: "product_state option"
  data_product_type :: "pystr option"
  data_category :: "pystr option"
  data_collected_photos :: "collected_photo list option"
  data_photo_path :: "pystr option"
  data_original_photo_path :: "pystr option"
  data_photo_file_id :: "pystr option"
  data_main_image_index :: "int option"
  data_all_images :: "pystr list option"
  data_all_original_images :: "pystr list option"
  data_title :: "pystr option"
  data_description :: "pystr option"
  data_price :: "pyfloat option"

text \<open>The texts the handlers send, by what they say.\<close>

datatype notice =
  PhotoReceived nat
| AdditionalPhotoReceived
| ErrorProcessingPhoto
| NoPhotosYet
| ErrorProcessingPhotos
| FailedToProcessPhotos
| ErrorProcessingPhotosRetry
| SelectMainImage nat
| InvalidSelection
| ImageSelected int
| ErrorSelectingMainImage
| PhotoReceivedAskDescription
| PhotoReceivedAskTitle
| MainImageSelectedAskDescription
| MainImageSelectedAskTitle
| TitleTooShort
| TitleTooLong
| NameSavedAskPrice pystr
| TitleSavedAskDescription pystr
| DescriptionTooLong
| DescriptionSavedAskName
| DescriptionSavedAskPrice
| PriceNotPositive
| PriceTooHigh
| InvalidPrice
| PriceSavedAskCategory pyfloat

text \<open>
  \<open>Answer m n\<close>: \<open>message.answer\<close> on message \<open>m\<close>, a new text message;
  \<open>AnswerMediaGroup\<close>: the album of images; \<open>CallbackAnswer\<close>: \<open>callback.answer\<close>, with the
  alert flag.
\<close>

datatype reply =
  Answer int notice
| AnswerMediaGroup int "pystr list"
| CallbackAnswer "notice option" bool

text \<open>
  The module state (\<open>album_buffer\<close>, \<open>album_tasks_scheduled\<close>), the tasks created by
  \<open>asyncio.create_task\<close> that have not run yet, the user's context and what was sent.
\<close>

record world =
  album_buffer :: "pystr \<rightharpoonup> album_item list"
  album_tasks_scheduled :: "pystr set"
  tasks :: "pystr list"
  fsm :: fsm_context
  sent :: "reply list"

text \<open>
  What the handlers call outside this module: fetching a photo into the media directory
  (the local path, or \<open>None\<close> when \<open>get_file\<close> or \<open>download_file\<close> raises), the user
  table, the watermark transform (it returns a path and never raises), the file system
  and \<open>os.path.splitext\<close>, and sending an album (\<open>False\<close>: it raises).
\<close>

record services =
  download :: "message \<Rightarrow> pystr option"
  get_user :: "int \<Rightarrow> user option"
  add_watermark :: "pystr \<Rightarrow> pystr \<Rightarrow> pystr \<Rightarrow> pystr"
  path_exists :: "pystr \<Rightarrow> bool"
  splitext :: "pystr \<Rightarrow> pystr \<times> pystr"
  answer_media_group :: "pystr list \<Rightarrow> bool"

definition send :: "reply \<Rightarrow> world \<Rightarrow> world" where
  "send r w = w\<lparr>sent := sent w @ [r]\<rparr>"

text \<open>\<open>data.get("collected_photos", [])\<close> and \<open>data.get("product_type", "standard")\<close>.\<close>

definition get_collected_photos :: "fsm_context \<Rightarrow> collected_photo list" where
  "get_collected_photos c = (case data_collected_photos c of None \<Rightarrow> [] | Some ps \<Rightarrow> ps)"

definition get_product_type :: "fsm_context \<Rightarrow> pystr" where
  "get_product_type c = (case data_product_type c of None \<Rightarrow> py ''standard'' | Some t \<Rightarrow> t)"

text \<open>\<open>max(0, 8 - len(collected_photos))\<close>.\<close>

definition remaining :: "collected_photo list \<Rightarrow> nat" where
  "remaining collected = nat (max 0 (8 - int (length collected)))"

text \<open>\<open>user.store_name or user.username or ""\<close>, and the empty name for no user.\<close>

definition store_name_of :: "user option \<Rightarrow> pystr" where
  "store_name_of u =
     (case u of
        None \<Rightarrow> []
      | Some usr \<Rightarrow>
          (if truthy_str (store_name usr) then the (store_name usr)
           else if truthy_str (username usr) then the (username usr)
           else []))"

subsection \<open>Photo arrival and the album timer\<close>

text \<open>
  \<open>product_photo_received\<close>. Everything is inside one \<open>try\<close>; an exception (no photo in
  the message, a failed download) ends in the error notice with nothing changed.
\<close>

definition product_photo_received :: "'s services_scheme \<Rightarrow> message \<Rightarrow> world \<Rightarrow> world" where
  "product_photo_received S m w =
     (case msg_photo m of
        None \<Rightarrow> send (Answer (msg_id m) ErrorProcessingPhoto) w
      | Some sizes \<Rightarrow>
          (if sizes = [] then send (Answer (msg_id m) ErrorProcessingPhoto) w
           else
             (case download S m of
                None \<Rightarrow> send (Answer (msg_id m) ErrorProcessingPhoto) w
              | Some file_path \<Rightarrow>
                  (if truthy_str (msg_media_group_id m) then
                     (let group_id = the (msg_media_group_id m);
                          buffered = (case album_buffer w group_id of None \<Rightarrow> [] | Some xs \<Rightarrow> xs);
                          w = w\<lparr>album_buffer := (album_buffer w)(group_id \<mapsto> buffered @
                                  [\<lparr>item_message = m, item_original_path = file_path,
                                    item_file_id = ps_file_id (last sizes)\<rparr>])\<rparr>
                      in if group_id \<notin> album_tasks_scheduled w
                         then w\<lparr>album_tasks_scheduled := insert group_id (album_tasks_scheduled w),
                                tasks := tasks w @ [group_id]\<rparr>
                         else w)
                   else
                     (let collected = get_collected_photos (fsm w) @
                            [\<lparr>original_path = file_path, file_id = ps_file_id (last sizes),
                              media_group_id = None\<rparr>];
                          w = w\<lparr>fsm := (fsm w)\<lparr>data_collected_photos := Some collected\<rparr>\<rparr>
                      in if length collected = 1
                         then send (Answer (msg_id m) (PhotoReceived (remaining collected))) w
                         else send (Answer (msg_id m) AdditionalPhotoReceived) w)))))"

text \<open>
  \<open>_process_album_later\<close>, from the point where its sleep is over: the task is done
  either way. With nothing buffered it only clears the flag; otherwise it merges the
  buffered photos in order, deletes the buffer entry, clears the flag and sends one
  prompt on the last message of the album.
\<close>

definition process_album_later :: "pystr \<Rightarrow> world \<Rightarrow> world" where
  "process_album_later group_id w =
     (let w = w\<lparr>tasks := remove1 group_id (tasks w)\<rparr>;
          photos = (case album_buffer w group_id of None \<Rightarrow> [] | Some xs \<Rightarrow> xs)
      in if photos = []
         then w\<lparr>album_tasks_scheduled := album_tasks_scheduled w - {group_id}\<rparr>
         else
           (let last_message = item_message (last photos);
                collected = get_collected_photos (fsm w) @
                  map (\<lambda>item. \<lparr>original_path = item_original_path item,
                                 file_id = item_file_id item,
                                 media_group_id = Some group_id\<rparr>) photos;
                w = w\<lparr>fsm := (fsm w)\<lparr>data_collected_photos := Some collected\<rparr>\<rparr>;
                w = w\<lparr>album_buffer := (album_buffer w)(group_id := None),
                       album_tasks_scheduled := album_tasks_scheduled w - {group_id}\<rparr>
            in send (Answer (msg_id last_message) (PhotoReceived (remaining collected))) w))"

text \<open>
  What happens to the intake of one user, in the order it happens: a photo message is
  handled, or the timer of a batch fires.
\<close>

datatype event = PhotoMessage message | AlbumTimer pystr

fun step :: "'s services_scheme \<Rightarrow> world \<Rightarrow> event \<Rightarrow> world" where
  "step S w (PhotoMessage m) = product_photo_received S m w"
| "step S w (AlbumTimer group_id) = process_album_later group_id w"

definition run :: "'s services_scheme \<Rightarrow> event list \<Rightarrow> world \<Rightarrow> world" where
  "run S evs w = foldl (step S) w evs"

text \<open>The album items that a photo message puts in the buffer of batch \<open>g\<close>.\<close>

definition buffered_item :: "'s services_scheme \<Rightarrow> pystr \<Rightarrow> event \<Rightarrow> album_item list" where
  "buffered_item S g ev =
     (case ev of
        AlbumTimer _ \<Rightarrow> []
      | PhotoMessage m \<Rightarrow>
          (case (msg_photo m, download S m) of
             (Some sizes, Some file_path) \<Rightarrow>
               (if sizes \<noteq> [] \<and> truthy_str (msg_media_group_id m) \<and> msg_media_group_id m = Some g
                then [\<lparr>item_message = m, item_original_path = file_path,
                       item_file_id = ps_file_id (last sizes)\<rparr>]
                else [])
           | _ \<Rightarrow> []))"

definition batch_arrivals :: "'s services_scheme \<Rightarrow> pystr \<Rightarrow> event list \<Rightarrow> album_item list" where
  "batch_arrivals S g evs = concat (map (buffered_item S g) evs)"

definition as_collected :: "pystr \<Rightarrow> album_item \<Rightarrow> collected_photo" where
  "as_collected g item =
     \<lparr>original_path = item_original_path item, file_id = item_file_id item,
      media_group_id = Some g\<rparr>"

text \<open>
  The state of one batch \<open>g\<close> while photos arrive and its timer has not fired: the buffer
  holds exactly the arrivals so far, the flag is set and one task is pending as soon as
  there is an arrival.
\<close>

definition batch_inv :: "pystr \<Rightarrow> world \<Rightarrow> album_item list \<Rightarrow> bool" where
  "batch_inv g w items \<longleftrightarrow>
     album_buffer w g = (if items = [] then None else Some items)
     \<and> (g \<in> album_tasks_scheduled w \<longleftrightarrow> items \<noteq> [])
     \<and> count_list (tasks w) g = (if items = [] then 0 else 1)"

text \<open>
  The events that remain when the buffered arrivals of batch \<open>g\<close> are taken out, and
  two states that differ at most in what they hold for batch \<open>g\<close>: same context, same
  replies, same buffer for every other batch.
\<close>

definition without_batch :: "'s services_scheme \<Rightarrow> pystr \<Rightarrow> event list \<Rightarrow> event list" where
  "without_batch S g evs = filter (\<lambda>ev. buffered_item S g ev = []) evs"

definition same_outside :: "pystr \<Rightarrow> world \<Rightarrow> world \<Rightarrow> bool" where
  "same_outside g w w' \<longleftrightarrow>
     fsm w = fsm w' \<and> sent w = sent w'
     \<and> (\<forall>g'. g' \<noteq> g \<longrightarrow> album_buffer w g' = album_buffer w' g')"

subsection \<open>Done adding photos\<close>

text \<open>
  Sending a text reply is taken to succeed; the calls that the source guards or that can
  fail before any state is written are modelled with their failure.

  \<open>process_single_photo\<close> has no \<open>try\<close> of its own: it reads \<open>message.photo[-1]\<close> of
  the message it is given, fetches that photo again, stamps it in place and moves to the
  first text step. Its exceptions go to the caller.
\<close>

definition process_single_photo ::
  "'s services_scheme \<Rightarrow> message \<Rightarrow> world \<Rightarrow> py_error + world" where
  "process_single_photo S m w =
     (case msg_photo m of
        None \<Rightarrow> Inl TypeError
      | Some sizes \<Rightarrow>
          (if sizes = [] then Inl IndexError
           else
             (case download S m of
                None \<Rightarrow> Inl TransportError
              | Some file_path \<Rightarrow>
                  (let name = store_name_of (get_user S (msg_from_user m));
                       watermarked_path = add_watermark S file_path name file_path;
                       w = w\<lparr>fsm := (fsm w)
                              \<lparr>data_photo_path := Some watermarked_path,
                               data_photo_file_id := Some (ps_file_id (last sizes)),
                               data_main_image_index := Some 0,
                               data_all_images := Some [watermarked_path],
                               data_all_original_images := Some [file_path]\<rparr>\<rparr>
                   in if get_product_type (fsm w) = py ''custom_description''
                      then Inr ((send (Answer (msg_id m) PhotoReceivedAskDescription) w)
                                  \<lparr>fsm := (fsm w)\<lparr>current_state := Some waiting_description\<rparr>\<rparr>)
                      else Inr ((send (Answer (msg_id m) PhotoReceivedAskTitle) w)
                                  \<lparr>fsm := (fsm w)\<lparr>current_state := Some waiting_title\<rparr>\<rparr>)))))"

text \<open>
  The loop of \<open>process_multiple_photos\<close>: each photo is stamped into a file of its own,
  and kept when the returned path is non-empty and exists. The result is the pair of
  parallel lists (stamped, unstamped).
\<close>

fun watermark_all ::
  "'s services_scheme \<Rightarrow> pystr \<Rightarrow> collected_photo list \<Rightarrow> pystr list \<times> pystr list" where
  "watermark_all S name [] = ([], [])"
| "watermark_all S name (photo_data # rest) =
     (case splitext S (original_path photo_data) of (base, ext) \<Rightarrow>
        (let watermarked_path =
               add_watermark S (original_path photo_data) name (base @ py ''_watermarked'' @ ext)
         in case watermark_all S name rest of (watermarked_paths, original_paths) \<Rightarrow>
              (if watermarked_path \<noteq> [] \<and> path_exists S watermarked_path
               then (watermarked_path # watermarked_paths,
                     original_path photo_data # original_paths)
               else (watermarked_paths, original_paths))))"

text \<open>
  \<open>process_multiple_photos\<close>: with no usable image it reports and stops; otherwise it
  stores both lists, sends the album and the selection prompt and enters
  \<open>waiting_main_image\<close>. A failure to send the album is caught after the lists were stored.
\<close>

definition process_multiple_photos ::
  "'s services_scheme \<Rightarrow> message \<Rightarrow> collected_photo list \<Rightarrow> world \<Rightarrow> world" where
  "process_multiple_photos S m collected w =
     (let name = store_name_of (get_user S (msg_from_user m))
      in case watermark_all S name collected of (watermarked_paths, original_paths) \<Rightarrow>
           (if watermarked_paths = [] then send (Answer (msg_id m) FailedToProcessPhotos) w
            else
              (let w = w\<lparr>fsm := (fsm w)\<lparr>data_all_images := Some watermarked_paths,
                                         data_all_original_images := Some original_paths\<rparr>\<rparr>
               in if \<not> answer_media_group S watermarked_paths
                  then send (Answer (msg_id m) ErrorProcessingPhotosRetry) w
                  else
                    (let w = send (AnswerMediaGroup (msg_id m) watermarked_paths) w;
                         w = send (Answer (msg_id m) (SelectMainImage (length watermarked_paths))) w
                     in w\<lparr>fsm := (fsm w)\<lparr>current_state := Some waiting_main_image\<rparr>\<rparr>))))"

text \<open>
  \<open>handle_photos_done\<close>: the message handed on is \<open>callback.message\<close>, the message that
  carries the pressed button. Any exception ends in the alert.
\<close>

definition handle_photos_done :: "'s services_scheme \<Rightarrow> callback_query \<Rightarrow> world \<Rightarrow> world" where
  "handle_photos_done S cb w =
     (let collected = get_collected_photos (fsm w)
      in if collected = [] then send (CallbackAnswer (Some NoPhotosYet) True) w
         else if length collected = 1
         then (case process_single_photo S (cb_message cb) w of
                 Inl e \<Rightarrow> send (CallbackAnswer (Some ErrorProcessingPhotos) True) w
               | Inr w' \<Rightarrow> send (CallbackAnswer None False) w')
         else send (CallbackAnswer None False)
                (process_multiple_photos S (cb_message cb) collected w))"

text \<open>
  The prompt that carries the \<open>Done adding photos\<close> button is sent with
  \<open>message.answer\<close>: a text message of the bot, without a photo.
\<close>

definition prompt_message :: "int \<Rightarrow> int \<Rightarrow> pystr \<Rightarrow> message" where
  "prompt_message mid bot_id body =
     \<lparr>msg_id = mid, msg_from_user = bot_id, msg_text = Some body, msg_photo = None,
      msg_media_group_id = None\<rparr>"

subsection \<open>Main-image selection\<close>

text \<open>
  \<open>handle_main_image_selection\<close>: the index is the text after the last underscore of the
  callback data. A text that is no integer, and a list of unstamped paths shorter than
  the index, raise and end in the error alert.
\<close>

definition handle_main_image_selection :: "callback_query \<Rightarrow> world \<Rightarrow> world" where
  "handle_main_image_selection cb w =
     (case py_int (last (split_on 95 (cb_data cb))) of
        None \<Rightarrow> send (CallbackAnswer (Some ErrorSelectingMainImage) True) w
      | Some main_index \<Rightarrow>
          (let all_images = (case data_all_images (fsm w) of None \<Rightarrow> [] | Some xs \<Rightarrow> xs);
               all_original_images =
                 (case data_all_original_images (fsm w) of None \<Rightarrow> [] | Some xs \<Rightarrow> xs)
           in if main_index < 0 \<or> main_index \<ge> int (length all_images)
              then send (CallbackAnswer (Some InvalidSelection) True) w
              else if nat main_index \<ge> length all_original_images
              then send (CallbackAnswer (Some ErrorSelectingMainImage) True) w
              else
                (let w = w\<lparr>fsm := (fsm w)
                           \<lparr>data_photo_path := Some (all_images ! nat main_index),
                            data_original_photo_path := Some (all_original_images ! nat main_index),
                            data_main_image_index := Some main_index,
                            data_all_images := Some all_images,
                            data_all_original_images := Some all_original_images\<rparr>\<rparr>;
                     w = send (CallbackAnswer (Some (ImageSelected (main_index + 1))) False) w
                 in if get_product_type (fsm w) = py ''custom_description''
                    then (send (Answer (msg_id (cb_message cb)) MainImageSelectedAskDescription) w)
                           \<lparr>fsm := (fsm w)\<lparr>current_state := Some waiting_description\<rparr>\<rparr>
                    else (send (Answer (msg_id (cb_message cb)) MainImageSelectedAskTitle) w)
                           \<lparr>fsm := (fsm w)\<lparr>current_state := Some waiting_title\<rparr>\<rparr>)))"

subsection \<open>Text steps\<close>

text \<open>
  The title and description handlers have no \<open>try\<close>: a message without text makes
  \<open>message.text.strip()\<close> raise out of the handler.
\<close>

definition product_title_received :: "message \<Rightarrow> world \<Rightarrow> py_error + world" where
  "product_title_received m w =
     (case msg_text m of
        None \<Rightarrow> Inl AttributeError
      | Some txt \<Rightarrow>
          (let ttl = strip txt
           in if length ttl < 3 then Inr (send (Answer (msg_id m) TitleTooShort) w)
              else if length ttl > 200 then Inr (send (Answer (msg_id m) TitleTooLong) w)
              else
                (let w = w\<lparr>fsm := (fsm w)\<lparr>data_title := Some ttl\<rparr>\<rparr>
                 in if get_product_type (fsm w) = py ''custom_description''
                    then Inr ((send (Answer (msg_id m) (NameSavedAskPrice ttl)) w)
                                \<lparr>fsm := (fsm w)\<lparr>current_state := Some waiting_price\<rparr>\<rparr>)
                    else Inr ((send (Answer (msg_id m) (TitleSavedAskDescription ttl)) w)
                                \<lparr>fsm := (fsm w)\<lparr>current_state := Some waiting_description\<rparr>\<rparr>))))"

definition product_description_received :: "message \<Rightarrow> world \<Rightarrow> py_error + world" where
  "product_description_received m w =
     (case msg_text m of
        None \<Rightarrow> Inl AttributeError
      | Some txt \<Rightarrow>
          (let dsc = strip txt
           in if length dsc > 1000 then Inr (send (Answer (msg_id m) DescriptionTooLong) w)
              else
                (let w = w\<lparr>fsm := (fsm w)\<lparr>data_description := Some dsc\<rparr>\<rparr>
                 in if get_product_type (fsm w) = py ''custom_description''
                    then Inr ((send (Answer (msg_id m) DescriptionSavedAskName) w)
                                \<lparr>fsm := (fsm w)\<lparr>current_state := Some waiting_title\<rparr>\<rparr>)
                    else Inr ((send (Answer (msg_id m) DescriptionSavedAskPrice) w)
                                \<lparr>fsm := (fsm w)\<lparr>current_state := Some waiting_price\<rparr>\<rparr>))))"

text \<open>
  \<open>product_price_received\<close>: commas are removed from the stripped text, then \<open>float\<close>
  parses it; only \<open>ValueError\<close> is caught. After the price is stored the handler hands
  over to \<open>show_custom_description_preview\<close> or \<open>show_category_fields\<close>, which are not
  part of this model: the second component of the result names the call that follows.
\<close>

datatype continuation =
  Finished | ShowCustomDescriptionPreview | ShowCategoryFields pystr

definition product_price_received ::
  "message \<Rightarrow> world \<Rightarrow> py_error + (world \<times> continuation)" where
  "product_price_received m w =
     (case msg_text m of
        None \<Rightarrow> Inl AttributeError
      | Some txt \<Rightarrow>
          (case py_float (remove_char 44 (strip txt)) of
             None \<Rightarrow> Inr (send (Answer (msg_id m) InvalidPrice) w, Finished)
           | Some prc \<Rightarrow>
               (if float_le prc 0 then Inr (send (Answer (msg_id m) PriceNotPositive) w, Finished)
                else if float_gt prc 10000000
                then Inr (send (Answer (msg_id m) PriceTooHigh) w, Finished)
                else
                  (let w = w\<lparr>fsm := (fsm w)\<lparr>data_price := Some prc\<rparr>\<rparr>
                   in if get_product_type (fsm w) = py ''custom_description''
                      then Inr (w, ShowCustomDescriptionPreview)
                      else if truthy_str (data_category (fsm w))
                      then Inr (w, ShowCategoryFields (the (data_category (fsm w))))
                      else Inr ((send (Answer (msg_id m) (PriceSavedAskCategory prc)) w)
                                  \<lparr>fsm := (fsm w)\<lparr>current_state := Some waiting_category\<rparr>\<rparr>,
                                Finished)))))"

section \<open>Concrete inputs\<close>

text \<open>
  A photo message, the context of a user who has just reached the photo step, and
  services that always deliver: the photo is stored under \<open>media/<file id>\<close>, the stamp
  is written to the requested output path, every path exists.
\<close>

definition photo_message :: "int \<Rightarrow> pystr \<Rightarrow> pystr option \<Rightarrow> message" where
  "photo_message mid fid grp =
     \<lparr>msg_id = mid, msg_from_user = 7, msg_text = None,
      msg_photo = Some [\<lparr>ps_file_id = fid\<rparr>], msg_media_group_id = grp\<rparr>"

definition text_message :: "int \<Rightarrow> pystr \<Rightarrow> message" where
  "text_message mid body =
     \<lparr>msg_id = mid, msg_from_user = 7, msg_text = Some body, msg_photo = None,
      msg_media_group_id = None\<rparr>"

definition fresh_context :: "product_state \<Rightarrow> fsm_context" where
  "fresh_context st =
     \<lparr>current_state = Some st, data_product_type = None, data_category = None,
      data_collected_photos = None, data_photo_path = None, data_original_photo_path = None,
      data_photo_file_id = None, data_main_image_index = None, data_all_images = None,
      data_all_original_images = None, data_title = None, data_description = None,
      data_price = None\<rparr>"

definition fresh_world :: "product_state \<Rightarrow> world" where
  "fresh_world st =
     \<lparr>album_buffer = Map.empty, album_tasks_scheduled = {}, tasks = [],
      fsm = fresh_context st, sent = []\<rparr>"

definition reliable_services :: services where
  "reliable_services =
     \<lparr>download = (\<lambda>m. case msg_photo m of
                          None \<Rightarrow> None
                        | Some sizes \<Rightarrow> Some (py ''media/'' @ ps_file_id (last sizes))),
      get_user = (\<lambda>uid. None),
      add_watermark = (\<lambda>image_path name output_path. output_path),
      path_exists = (\<lambda>p. True),
      splitext = (\<lambda>p. (p, [])),
      answer_media_group = (\<lambda>paths. True)\<rparr>"

text \<open>
  A product with one engagement row of user 7: \<open>like_db n l\<close> has the like counter at
  \<open>n\<close> and the user's like flag at \<open>l\<close>.
\<close>

definition sample_product :: product where
  "sample_product =
     \<lparr>product_id = 1, title = Some (py ''Phone''), description = Some (py ''As new''),
      price = Some (Finite 2500), category = Some (py ''phones''),
      image_path = py ''media/phone.jpg'', is_active = True, likes_count = 0,
      saves_count = 0, orders_count = 0, custom_button_text = None,
      custom_button_url = None, like_enabled = True, save_enabled = True,
      order_enabled = True\<rparr>"

definition like_db :: "int \<Rightarrow> bool \<Rightarrow> database" where
  "like_db n l =
     \<lparr>users = Map.empty,
      products = [1 \<mapsto> sample_product\<lparr>likes_count := n\<rparr>],
      engagements = [(7, 1) \<mapsto> \<lparr>liked = l, saved = False\<rparr>],
      schedules = Map.empty\<rparr>"

text \<open>
  Two due schedules of seller 7 for the same product, one on a channel where sending
  fails and one where it succeeds; the sweep runs at 10:00 on day 739000.
\<close>

definition sweep_time :: datetime where
  "sweep_time = \<lparr>ordinal = 739000, hour = 10, minute = 0, second = 0, microsecond = 0\<rparr>"

definition sample_schedule :: "int \<Rightarrow> pystr \<Rightarrow> post_schedule" where
  "sample_schedule sid channel =
     \<lparr>schedule_id = sid, seller_id = 7, schedule_product_id = 1, channel_username = channel,
      interval_days = 2, post_time = py ''09:00'', last_posted_at = None,
      next_post_at = Some \<lparr>ordinal = 739000, hour = 9, minute = 0, second = 0,
                            microsecond = 0\<rparr>\<rparr>"

definition schedule_db :: database where
  "schedule_db =
     \<lparr>users = [7 \<mapsto> \<lparr>store_name = Some (py ''Shop''), username = None, phone = None\<rparr>],
      products = [1 \<mapsto> sample_product],
      engagements = Map.empty,
      schedules = [1 \<mapsto> sample_schedule 1 (py ''@down''),
                   2 \<mapsto> sample_schedule 2 (py ''@shop'')]\<rparr>"

definition one_channel_down :: transport where
  "one_channel_down =
     \<lparr>send_photo = (\<lambda>chat_id photo_path caption keyboard. chat_id \<noteq> py ''@down''),
      clock_at = (\<lambda>sid. sweep_time)\<rparr>"

text \<open>Stand-ins for the two library functions, where a concrete value is needed.\<close>

definition plain_builtins :: builtins where
  "plain_builtins = \<lparr>format_2f = (\<lambda>x. py ''0.00''), str_title = (\<lambda>s. s)\<rparr>"

text \<open>A draft with two images, waiting for the choice of the main one.\<close>

definition two_image_world :: world where
  "two_image_world =
     (fresh_world waiting_main_image)
       \<lparr>fsm := (fresh_context waiting_main_image)
          \<lparr>data_all_images := Some [py ''a_watermarked.jpg'', py ''b_watermarked.jpg''],
           data_all_original_images := Some [py ''a.jpg'', py ''b.jpg'']\<rparr>\<rparr>"

definition custom_two_image_world :: world where
  "custom_two_image_world =
     two_image_world
       \<lparr>fsm := (fsm two_image_world)\<lparr>data_product_type := Some (py ''custom_description'')\<rparr>\<rparr>"

definition select_callback :: "pystr \<Rightarrow> callback_query" where
  "select_callback payload =
     \<lparr>cb_data = payload, cb_message = prompt_message 5 0 (py ''Select Main Image'')\<rparr>"

section \<open>Properties of the next-fire computation\<close>

lemma py_simps [simp]:
  "py [] = []"
  "py (c # cs) = of_char c # py cs"
  by (simp_all add: py_def)

lemma isdigit_not_isspace: "isdigit c \<Longrightarrow> \<not> isspace_numeric c"
  unfolding isdigit_def isspace_numeric_def isspace_def by arith

lemma dropWhile_hd_id: "s \<noteq> [] \<Longrightarrow> \<not> P (hd s) \<Longrightarrow> dropWhile P s = s"
  by (cases s) simp_all

lemma strip_numeric_id:
  assumes "s \<noteq> []" and "\<not> isspace_numeric (hd s)" and "\<not> isspace_numeric (last s)"
  shows "strip_numeric s = s"
proof -
  have "dropWhile isspace_numeric s = s"
    using assms(1,2) by (rule dropWhile_hd_id)
  moreover have "dropWhile isspace_numeric (rev s) = rev s"
    using assms(1,3) by (intro dropWhile_hd_id) (simp_all add: hd_rev)
  ultimately show ?thesis
    by (simp add: strip_numeric_def)
qed

lemma isdigit_two_digits:
  assumes "n < 100"
  shows "isdigit (48 + n div 10)" and "isdigit (48 + n mod 10)"
proof -
  have "n div 10 < 10" using assms by simp
  then show "isdigit (48 + n div 10)" by (simp add: isdigit_def)
  have "n mod 10 < 10" by simp
  then show "isdigit (48 + n mod 10)" by (simp add: isdigit_def)
qed

lemma strip_two_digits: "n < 100 \<Longrightarrow> strip_numeric (two_digits n) = two_digits n"
  by (rule strip_numeric_id) (simp_all add: two_digits_def isdigit_not_isspace isdigit_two_digits)

lemma py_int_two_digits: "n < 100 \<Longrightarrow> py_int (two_digits n) = Some (int n)"
proof -
  assume n: "n < 100"
  have d: "n div 10 < 10" using n by simp
  have "take_sign (two_digits n) = (False, two_digits n)"
    by (simp add: two_digits_def)
  moreover have "digitpart (two_digits n) = Some [n div 10, n mod 10]"
    using isdigit_two_digits [OF n] by (simp add: two_digits_def)
  moreover have "decimal [n div 10, n mod 10] = n"
    by (simp add: decimal_def)
  ultimately show ?thesis
    by (simp add: py_int_def strip_two_digits [OF n])
qed

lemma split_on_no_sep: "sep \<notin> set s \<Longrightarrow> split_on sep s = [s]"
  by (induction s) auto

lemma split_on_append_sep:
  "sep \<notin> set a \<Longrightarrow> split_on sep (a @ sep # b) = a # split_on sep b"
  by (induction a) auto

lemma colon_notin_two_digits: "n < 100 \<Longrightarrow> 58 \<notin> set (two_digits n)"
proof -
  assume "n < 100"
  then have "n div 10 < 10" by simp
  moreover have "n mod 10 < 10" by simp
  ultimately show ?thesis by (auto simp: two_digits_def)
qed

lemma parse_post_time_hhmm:
  assumes "h < 100" "m < 100"
  shows "parse_post_time (hhmm h m) = (int h, int m)"
proof -
  have "split_on 58 (hhmm h m) = [two_digits h, two_digits m]"
    using assms
    by (simp add: hhmm_def split_on_append_sep split_on_no_sep colon_notin_two_digits)
  then show ?thesis
    using assms by (simp add: parse_post_time_def py_int_two_digits)
qed

lemma dt_less_ordinal: "ordinal a < ordinal b \<Longrightarrow> dt_less a b"
  by (simp add: dt_less_def)

text \<open>
  C3. For every interval of at least one day, every post time hour:minute and every
  current time, the next-fire computation returns today's occurrence of the post time,
  moved to tomorrow when today's occurrence is not strictly after the current time, plus
  the interval in days; the result is strictly after the current time; and for an
  interval of 2 and post time 09:00 evaluated at 10:00 on day D it is day D+3 at 09:00.
  (The result date has to exist: Python dates end at ordinal 3652059.)
\<close>

theorem calculate_next_post_time_spec:
  assumes "1 \<le> days" and "h < 24" and "m < 60"
    and "1 \<le> ordinal now" and "ordinal now + 1 + days \<le> MAXORDINAL"
  shows "(let today = now\<lparr>hour := h, minute := m, second := 0, microsecond := 0\<rparr>;
              start = (if dt_le today now then today\<lparr>ordinal := ordinal now + 1\<rparr> else today);
              result = start\<lparr>ordinal := ordinal start + days\<rparr>
          in calculate_next_post_time now days (hhmm h m) = Inr result
             \<and> dt_less now result
             \<and> (days = 2 \<and> h = 9 \<and> m = 0 \<and> hour now = 10 \<and> minute now = 0 \<longrightarrow>
                  result = \<lparr>ordinal = ordinal now + 3, hour = 9, minute = 0,
                            second = 0, microsecond = 0\<rparr>))"
proof -
  define today where "today = now\<lparr>hour := h, minute := m, second := 0, microsecond := 0\<rparr>"
  define start where
    "start = (if dt_le today now then today\<lparr>ordinal := ordinal now + 1\<rparr> else today)"
  define result where "result = start\<lparr>ordinal := ordinal start + days\<rparr>"
  have parse: "parse_post_time (hhmm h m) = (int h, int m)"
    using assms(2,3) by (simp add: parse_post_time_hhmm)
  have repl: "replace_time now (int h) (int m) = Inr today"
    using assms(2,3) by (simp add: replace_time_def today_def)
  have ord_today: "ordinal today = ordinal now"
    by (simp add: today_def)
  have roll: "(if dt_le today now then add_days today 1 else Inr today) = Inr start"
    using assms(1,4,5) by (simp add: add_days_def start_def ord_today)
  have ord_start: "ordinal now \<le> ordinal start" "ordinal start \<le> ordinal now + 1"
    by (simp_all add: start_def ord_today)
  have add: "add_days start days = Inr result"
    using assms(1,4,5) ord_start by (simp add: add_days_def result_def MAXORDINAL_def)
  have calc: "calculate_next_post_time now days (hhmm h m) = Inr result"
    by (simp add: calculate_next_post_time_def parse repl roll add)
  have "ordinal now < ordinal result"
    using assms(1) ord_start by (simp add: result_def)
  then have future: "dt_less now result"
    by (rule dt_less_ordinal)
  have example: "result = \<lparr>ordinal = ordinal now + 3, hour = 9, minute = 0,
                            second = 0, microsecond = 0\<rparr>"
    if "days = 2" "h = 9" "m = 0" "hour now = 10" "minute now = 0"
  proof -
    have "dt_le today now"
      using that by (simp add: dt_le_def dt_less_def today_def)
    then show ?thesis
      using that by (simp add: result_def start_def today_def)
  qed
  show ?thesis
    unfolding Let_def today_def [symmetric] start_def [symmetric] result_def [symmetric]
    using calc future example by simp
qed

theorem calculate_next_post_time_spec_witness:
  "calculate_next_post_time
     \<lparr>ordinal = 739000, hour = 10, minute = 0, second = 0, microsecond = 0\<rparr> 2 (py ''09:00'')
   = Inr \<lparr>ordinal = 739003, hour = 9, minute = 0, second = 0, microsecond = 0\<rparr>"
  using calculate_next_post_time_spec
    [of 2 9 0 "\<lparr>ordinal = 739000, hour = 10, minute = 0, second = 0, microsecond = 0\<rparr>"]
  by (simp add: MAXORDINAL_def hhmm_def two_digits_def dt_le_def dt_less_def Let_def)

section \<open>The library functions on literal inputs\<close>

text \<open>
  The modelled \<open>str.strip\<close>, \<open>str.split\<close>, \<open>int\<close> and \<open>float\<close> on inputs whose Python
  results are known. \<open>str.strip\<close> removes the separator controls 28 to 31, \<open>int\<close> and
  \<open>float\<close> do not accept them.
\<close>

lemma strip_examples:
  "strip (py ''  a b  '') = py ''a b''"
  "strip [28, 53, 31] = [53]"
  "strip [9, 10, 160, 53, 8195] = [53]"
  "strip (py ''   '') = []"
  by (simp_all add: strip_def isspace_def)

lemma split_on_examples:
  "split_on 58 (py ''09:00'') = [py ''09'', py ''00'']"
  "split_on 58 [] = [[]]"
  "split_on 44 (py ''a,b,,c'') = [py ''a'', py ''b'', [], py ''c'']"
  "split_on 95 (py ''select_main_1'') = [py ''select'', py ''main'', py ''1'']"
  by simp_all

lemma py_int_examples:
  "py_int (py ''09'') = Some 9"
  "py_int (py '' +1_2 '') = Some 12"
  "py_int (py ''-9'') = Some (- 9)"
  "py_int (py ''1__2'') = None"
  "py_int (py ''_1'') = None"
  "py_int (py ''1_'') = None"
  "py_int (py ''1e5'') = None"
  "py_int (py ''- 5'') = None"
  "py_int [] = None"
  "py_int [28, 53] = None"
  "py_int [160, 53, 8195] = Some 5"
  by (simp_all add: py_int_def strip_numeric_def isspace_numeric_def isspace_def isdigit_def
        decimal_def)

lemma py_float_examples:
  "py_float (py ''2500'') = Some (Finite 2500)"
  "py_float (py '' -1_0.5e-1 '') = Some (Finite (- 21 / 20))"
  "py_float (py ''.5'') = Some (Finite (1 / 2))"
  "py_float (py ''5.'') = Some (Finite 5)"
  "py_float (py ''1.e5'') = Some (Finite 100000)"
  "py_float (py ''1E+2'') = Some (Finite 100)"
  "py_float (py ''nan'') = Some NaN"
  "py_float (py ''-NaN'') = Some NaN"
  "py_float (py ''+inf'') = Some PosInf"
  "py_float (py ''-Infinity'') = Some NegInf"
  "py_float (py ''infinit'') = None"
  "py_float (py ''.'') = None"
  "py_float (py ''1e'') = None"
  "py_float (py ''1_.5'') = None"
  "py_float (py ''1.5.2'') = None"
  "py_float (py ''1,5'') = None"
  "py_float [] = None"
  "py_float [28, 53] = None"
  by (simp_all add: py_float_def strip_numeric_def isspace_numeric_def isspace_def lower_def
        float_number_def mantissa_def isdigit_def decimal_def)

text \<open>A post time that does not parse falls back to 9:00; one that parses is taken as it is,
  and an hour that no day has makes the computation raise.\<close>

lemma parse_post_time_examples:
  "parse_post_time (py ''18:30'') = (18, 30)"
  "parse_post_time (py ''9'') = (9, 0)"
  "parse_post_time (py ''a:b'') = (9, 0)"
  "parse_post_time (py ''1:2:3'') = (9, 0)"
  "parse_post_time (py ''25:00'') = (25, 0)"
  by (simp_all add: parse_post_time_def py_int_def strip_numeric_def isspace_numeric_def
        isspace_def isdigit_def decimal_def)

lemma calculate_next_post_time_bad_hour:
  "calculate_next_post_time now days (py ''25:00'') = Inl ValueError"
  by (simp add: calculate_next_post_time_def parse_post_time_def py_int_def strip_numeric_def
        isspace_numeric_def isspace_def isdigit_def decimal_def replace_time_def)

section \<open>Properties of the like toggle\<close>

lemma toggle_like_Inr:
  assumes "toggle_like u pid db = Inr (l, p', db')"
  shows "\<exists>p0. products db pid = Some p0
          \<and> l = (\<not> is_liked_by db u pid)
          \<and> p' = (if is_liked_by db u pid
                   then p0\<lparr>likes_count := max 0 (likes_count p0 - 1)\<rparr>
                   else p0\<lparr>likes_count := likes_count p0 + 1\<rparr>)
          \<and> products db' = (products db)(pid \<mapsto> p')
          \<and> (\<forall>v q. is_liked_by db' v q =
                 (if v = u \<and> q = pid then \<not> is_liked_by db u pid else is_liked_by db v q))"
proof (cases "products db pid")
  case None
  then show ?thesis using assms by (simp add: toggle_like_def Let_def)
next
  case (Some p0)
  show ?thesis
  proof (cases "engagements db (u, pid)")
    case None
    then show ?thesis
      using assms Some by (auto simp: toggle_like_def is_liked_by_def Let_def)
  next
    case (Some e)
    then show ?thesis
      using assms \<open>products db pid = Some p0\<close>
      by (auto simp: toggle_like_def is_liked_by_def Let_def)
  qed
qed

lemma likes_countedD:
  assumes "likes_counted db" and "products db pid = Some p"
  shows "finite (likers db pid)" and "likes_count p = int (card (likers db pid))"
  using assms unfolding likes_counted_def by blast+

lemma liker_card:
  assumes "finite A" and "u \<in> A"
  shows "1 \<le> card A"
proof -
  have "A \<noteq> {}" using assms(2) by auto
  then have "0 < card A" using assms(1) by (simp add: card_gt_0_iff)
  then show ?thesis by simp
qed

lemma toggle_like_keeps_count:
  assumes inv: "likes_counted db" and t: "toggle_like u pid db = Inr (l, p', db')"
  shows "likes_counted db'"
proof -
  obtain p0 where p0: "products db pid = Some p0"
    and p': "p' = (if is_liked_by db u pid
                   then p0\<lparr>likes_count := max 0 (likes_count p0 - 1)\<rparr>
                   else p0\<lparr>likes_count := likes_count p0 + 1\<rparr>)"
    and prods: "products db' = (products db)(pid \<mapsto> p')"
    and lk: "\<And>v q. is_liked_by db' v q =
                 (if v = u \<and> q = pid then \<not> is_liked_by db u pid else is_liked_by db v q)"
    using toggle_like_Inr [OF t] by (elim exE conjE) (rule that, simp_all)
  have other: "likers db' q = likers db q" if "q \<noteq> pid" for q
    using that by (simp add: likers_def lk)
  have same: "likers db' pid =
                (if is_liked_by db u pid then likers db pid - {u} else insert u (likers db pid))"
  proof (cases "is_liked_by db u pid")
    case True
    have "likers db' pid = likers db pid - {u}"
    proof (rule set_eqI)
      fix v show "v \<in> likers db' pid \<longleftrightarrow> v \<in> likers db pid - {u}"
        using True by (cases "v = u") (simp_all add: likers_def lk)
    qed
    then show ?thesis using True by simp
  next
    case False
    have "likers db' pid = insert u (likers db pid)"
    proof (rule set_eqI)
      fix v show "v \<in> likers db' pid \<longleftrightarrow> v \<in> insert u (likers db pid)"
        using False by (cases "v = u") (simp_all add: likers_def lk)
    qed
    then show ?thesis using False by simp
  qed
  have fin: "finite (likers db pid)" and cnt: "likes_count p0 = int (card (likers db pid))"
    using inv p0 by (rule likes_countedD)+
  have here: "finite (likers db' pid) \<and> likes_count p' = int (card (likers db' pid))"
  proof (cases "is_liked_by db u pid")
    case True
    then have mem: "u \<in> likers db pid" by (simp add: likers_def)
    have pos: "1 \<le> card (likers db pid)" using fin mem by (rule liker_card)
    have "card (likers db pid - {u}) = card (likers db pid) - 1"
      using mem by (simp add: card_Diff_singleton)
    then show ?thesis
      using True fin cnt pos by (simp add: same p')
  next
    case False
    then have "u \<notin> likers db pid" by (simp add: likers_def)
    then have "card (insert u (likers db pid)) = card (likers db pid) + 1"
      using fin by simp
    then show ?thesis
      using False fin cnt by (simp add: same p')
  qed
  show ?thesis
    unfolding likes_counted_def
  proof (intro allI impI)
    fix q p
    assume q: "products db' q = Some p"
    show "finite (likers db' q) \<and> likes_count p = int (card (likers db' q))"
    proof (cases "q = pid")
      case True
      then have "p = p'" using q prods by simp
      then show ?thesis using here True by simp
    next
      case False
      then have "products db q = Some p" using q prods by simp
      then have "finite (likers db q) \<and> likes_count p = int (card (likers db q))"
        using inv likes_countedD by blast
      then show ?thesis using False by (simp add: other)
    qed
  qed
qed

lemma likes_counted_precondition:
  assumes "likes_counted db" and "products db pid = Some p0"
  shows "0 \<le> likes_count p0 \<and> (is_liked_by db u pid \<longrightarrow> 1 \<le> likes_count p0)"
proof -
  have fin: "finite (likers db pid)" and cnt: "likes_count p0 = int (card (likers db pid))"
    using assms by (rule likes_countedD)+
  have "1 \<le> card (likers db pid)" if "is_liked_by db u pid"
  proof -
    have "u \<in> likers db pid" using that by (simp add: likers_def)
    with fin show ?thesis by (rule liker_card)
  qed
  then show ?thesis using cnt by simp
qed

text \<open>
  C9, as stated, fails where the stored counter is behind the stored flag: user 7 likes
  product 1 while its counter is 0. The first toggle clamps the counter at 0, the second
  raises it, and two toggles leave it at 1.
\<close>

theorem toggle_like_twice_clamped_counterexample:
  "is_liked_by (like_db 0 True) 7 1
   \<and> map_option likes_count (products (like_db 0 True) 1) = Some 0
   \<and> toggle_like_twice 7 1 (like_db 0 True)
       = Inr (True, sample_product\<lparr>likes_count := 1\<rparr>, like_db 1 True)"
  by (simp add: toggle_like_twice_def toggle_like_def is_liked_by_def like_db_def
        sample_product_def Let_def)

text \<open>
  C9, amended. For every stored product whose like counter is not negative, and is at
  least 1 when the user currently likes the product (as in every state in which the
  counters equal the numbers of likers, by \<open>likes_counted_precondition\<close>), two toggles
  in succession by that user return the user's like flag and the whole product row, the
  counter included, to what they were.
\<close>

theorem toggle_like_twice_restores:
  assumes "products db pid = Some p0"
    and "0 \<le> likes_count p0"
    and "is_liked_by db u pid \<longrightarrow> 1 \<le> likes_count p0"
  shows "\<exists>db'. toggle_like_twice u pid db = Inr (is_liked_by db u pid, p0, db')
               \<and> products db' = products db
               \<and> is_liked_by db' u pid = is_liked_by db u pid"
  using assms
  by (cases "engagements db (u, pid)")
     (auto simp: toggle_like_twice_def toggle_like_def is_liked_by_def Let_def fun_upd_idem)

theorem toggle_like_twice_restores_witness:
  "\<exists>db'. toggle_like_twice 7 1 (like_db 3 True)
            = Inr (True, sample_product\<lparr>likes_count := 3\<rparr>, db')
         \<and> products db' = products (like_db 3 True)
         \<and> is_liked_by db' 7 1"
  using toggle_like_twice_restores [of "like_db 3 True" 1 "sample_product\<lparr>likes_count := 3\<rparr>" 7]
  by (simp add: like_db_def is_liked_by_def)

section \<open>Properties of the caption\<close>

lemma escape_char_pass:
  assumes "c \<notin> set cs" and "92 \<notin> set cs"
  shows "concat (map (\<lambda>x. if x \<in> set cs then [92, x] else [x]) (escape_char c t))
         = concat (map (\<lambda>x. if x \<in> set (c # cs) then [92, x] else [x]) t)"
  using assms by (induction t) (auto simp: escape_char_def)

lemma escape_fold:
  assumes "distinct cs" and "92 \<notin> set cs"
  shows "foldl (\<lambda>t char. escape_char char t) t cs
         = concat (map (\<lambda>x. if x \<in> set cs then [92, x] else [x]) t)"
  using assms
proof (induction cs arbitrary: t)
  case Nil
  then show ?case by (induction t) simp_all
next
  case (Cons c cs)
  have c: "c \<notin> set cs" and d: "distinct cs" and b: "92 \<notin> set cs"
    using Cons.prems by auto
  have "foldl (\<lambda>t char. escape_char char t) t (c # cs)
        = foldl (\<lambda>t char. escape_char char t) (escape_char c t) cs"
    by simp
  also have "\<dots> = concat (map (\<lambda>x. if x \<in> set cs then [92, x] else [x]) (escape_char c t))"
    using d b by (rule Cons.IH)
  also have "\<dots> = concat (map (\<lambda>x. if x \<in> set (c # cs) then [92, x] else [x]) t)"
    using c b by (rule escape_char_pass)
  finally show ?case .
qed

lemma special_chars_distinct: "distinct special_chars \<and> 92 \<notin> set special_chars"
  by (simp add: special_chars_def)

text \<open>The fourteen replacements amount to one pass that puts a backslash before each
  special character.\<close>

lemma escape_markdown_pass:
  "escape_markdown (Some t)
   = concat (map (\<lambda>x. if x \<in> set special_chars then [92, x] else [x]) t)"
  using special_chars_distinct by (simp add: escape_markdown_def escape_fold)

lemma set_special_chars:
  "set special_chars = {95, 42, 91, 93, 126, 96, 62, 35, 43, 61, 124, 123, 125, 33}"
  by (simp add: special_chars_def)

lemma escape_markdown_explicit:
  "escape_markdown o_txt =
     (case o_txt of
        None \<Rightarrow> []
      | Some txt \<Rightarrow>
          concat (map (\<lambda>x. if x \<in> {95, 42, 91, 93, 126, 96, 62, 35, 43, 61, 124, 123, 125, 33}
                             then [92, x] else [x]) txt))"
proof (cases o_txt)
  case None
  then show ?thesis by (simp add: escape_markdown_def)
next
  case (Some s)
  then show ?thesis by (simp add: escape_markdown_pass set_special_chars del: set_simps)
qed

text \<open>
  C8. For a product of type \<open>custom_description\<close>: rendered for a channel, the caption is
  the description with a backslash before each of the characters
  \<open>_ * [ ] ~ ` > # + = | { }\<close> and \<open>!\<close>, and nothing else, whatever title, price, category,
  seller and fields are. Rendered elsewhere, it is: the title header (shopping bags,
  the escaped title in bold, a rule of twenty box-drawing characters) when the title is
  present, that is neither \<open>None\<close> nor empty; then the price line (money bag, the
  escaped formatted price with \<open>Birr\<close>, in bold) when the price is present, that is
  neither \<open>None\<close> nor zero; then the escaped description; then, when a seller name or
  phone is present, a blank line and the escaped seller name in bold after a bust and the
  escaped phone after a telephone, each on its own line and only if present.
\<close>

theorem custom_description_caption:
  "(let esc = (\<lambda>txt. concat (map (\<lambda>x. if x \<in> {95, 42, 91, 93, 126, 96, 62, 35, 43, 61, 124,
                                                   123, 125, 33}
                                          then [92, x] else [x]) txt));
        esc_opt = (\<lambda>v. case v of None \<Rightarrow> [] | Some txt \<Rightarrow> esc txt)
    in format_product_caption B t d p c sn sp (py ''custom_description'') cf True = esc_opt d
       \<and> format_product_caption B t d p c sn sp (py ''custom_description'') cf False
           = (if t \<noteq> None \<and> t \<noteq> Some []
              then [0x1F6CD, 0xFE0F] @ py '' **'' @ esc_opt t @ py ''**'' @ [10]
                   @ replicate 20 0x2501 @ [10, 10]
              else [])
             @ (if p \<noteq> None \<and> p \<noteq> Some (Finite 0)
                then [0x1F4B0] @ py '' **'' @ esc (format_2f B (the p) @ py '' Birr'')
                     @ py ''**'' @ [10, 10]
                else [])
             @ esc_opt d
             @ (if (sn \<noteq> None \<and> sn \<noteq> Some []) \<or> (sp \<noteq> None \<and> sp \<noteq> Some [])
                then [10, 10]
                     @ (if sn \<noteq> None \<and> sn \<noteq> Some []
                        then [0x1F464] @ py '' **'' @ esc_opt sn @ py ''**'' @ [10] else [])
                     @ (if sp \<noteq> None \<and> sp \<noteq> Some []
                        then [0x1F4DE] @ py '' '' @ esc_opt sp @ [10] else [])
                else []))"
proof -
  have ts: "truthy_str v \<longleftrightarrow> v \<noteq> None \<and> v \<noteq> Some []" for v
    by (cases v) simp_all
  have tf: "truthy_float v \<longleftrightarrow> v \<noteq> None \<and> v \<noteq> Some (Finite 0)" for v
    by (cases v rule: truthy_float.cases) simp_all
  show ?thesis
    unfolding Let_def format_product_caption_def seller_lines_def format_price_def
      escape_markdown_explicit ts tf shopping_bags_def money_bag_def bust_def telephone_def
      rule_line_def
    by (simp del: py_simps)
qed

theorem custom_description_caption_witness:
  "format_product_caption plain_builtins (Some (py ''A_b'')) (Some (py ''x*y''))
     (Some (Finite 5)) None (Some (py ''Shop'')) (Some (py ''+251''))
     (py ''custom_description'') None True
   = py ''x'' @ [92] @ py ''*y''
   \<and> format_product_caption plain_builtins (Some (py ''A_b'')) (Some (py ''x*y''))
       (Some (Finite 5)) None (Some (py ''Shop'')) (Some (py ''+251''))
       (py ''custom_description'') None False
     = [0x1F6CD, 0xFE0F] @ py '' **A'' @ [92] @ py ''_b**'' @ [10]
       @ replicate 20 0x2501 @ [10, 10]
       @ [0x1F4B0] @ py '' **0.00 Birr**'' @ [10, 10]
       @ py ''x'' @ [92] @ py ''*y'' @ [10, 10]
       @ [0x1F464] @ py '' **Shop**'' @ [10]
       @ [0x1F4DE] @ py '' '' @ [92] @ py ''+251'' @ [10]"
  using custom_description_caption [of plain_builtins "Some (py ''A_b'')" "Some (py ''x*y'')"
          "Some (Finite 5)" None "Some (py ''Shop'')" "Some (py ''+251'')" None]
  by (simp add: Let_def plain_builtins_def)

section \<open>Properties of the scheduler sweep\<close>

lemma update_schedule_tables [simp]:
  "users (update_schedule_post_time sid l n db) = users db"
  "products (update_schedule_post_time sid l n db) = products db"
  "k \<noteq> sid \<Longrightarrow> schedules (update_schedule_post_time sid l n db) k = schedules db k"
  by (simp_all add: update_schedule_post_time_def split: option.splits)

lemma update_schedule_row:
  "schedules (update_schedule_post_time sid l n db) sid
     = map_option (\<lambda>r. r\<lparr>last_posted_at := l, next_post_at := n\<rparr>) (schedules db sid)"
  by (simp add: update_schedule_post_time_def split: option.splits)

lemma dispatch_post_cong:
  assumes "users db' = users db" and "products db' = products db"
  shows "dispatch_post B T s db' = dispatch_post B T s db"
  unfolding dispatch_post_def assms by (rule refl)

lemma post_scheduled_tables:
  "users (fst (post_scheduled B T now s db)) = users db"
  "products (fst (post_scheduled B T now s db)) = products db"
  by (simp_all add: post_scheduled_def split: dispatch.splits sum.splits)

lemma post_scheduled_other_rows:
  "k \<noteq> schedule_id s \<Longrightarrow> schedules (fst (post_scheduled B T now s db)) k = schedules db k"
  by (simp add: post_scheduled_def split: dispatch.splits sum.splits)

text \<open>The row of a schedule after the loop body has run for it alone.\<close>

lemma post_scheduled_row:
  "schedules (fst (post_scheduled B T now s db)) (schedule_id s) =
     (case dispatch_post B T s db of
        Sent \<Rightarrow>
          (case calculate_next_post_time (clock_at T (schedule_id s)) (interval_days s)
                  (post_time s) of
             Inl e \<Rightarrow> schedules db (schedule_id s)
           | Inr np \<Rightarrow> map_option (\<lambda>r. r\<lparr>last_posted_at := Some now, next_post_at := Some np\<rparr>)
                         (schedules db (schedule_id s)))
      | _ \<Rightarrow> schedules db (schedule_id s))"
  by (simp add: post_scheduled_def update_schedule_row split: dispatch.splits sum.splits)

lemma sweep_Cons_fst:
  "fst (check_and_post_scheduled B T now (a # rest) db)
   = (if is_due now a
      then fst (check_and_post_scheduled B T now rest (fst (post_scheduled B T now a db)))
      else fst (check_and_post_scheduled B T now rest db))"
  by (simp split: prod.splits)

lemma sweep_tables:
  "users (fst (check_and_post_scheduled B T now scheds db)) = users db
   \<and> products (fst (check_and_post_scheduled B T now scheds db)) = products db
   \<and> (k \<notin> schedule_id ` set scheds \<longrightarrow>
        schedules (fst (check_and_post_scheduled B T now scheds db)) k = schedules db k)"
proof (induction scheds arbitrary: db)
  case Nil
  then show ?case by simp
next
  case (Cons a rest)
  show ?case
    using Cons.IH [of db] Cons.IH [of "fst (post_scheduled B T now a db)"]
    by (simp add: sweep_Cons_fst post_scheduled_tables post_scheduled_other_rows
             del: check_and_post_scheduled.simps)
qed

lemma sweep_row:
  assumes "distinct (map schedule_id scheds)" and "s \<in> set scheds"
  shows "schedules (fst (check_and_post_scheduled B T now scheds db)) (schedule_id s)
         = (if is_due now s
            then schedules (fst (post_scheduled B T now s db)) (schedule_id s)
            else schedules db (schedule_id s))"
  using assms
proof (induction scheds arbitrary: db)
  case Nil
  then show ?case by simp
next
  case (Cons a rest)
  define db1 where "db1 = fst (post_scheduled B T now a db)"
  have t: "users db1 = users db" "products db1 = products db"
    by (simp_all add: db1_def post_scheduled_tables)
  show ?case
  proof (cases "s = a")
    case True
    have notin: "schedule_id a \<notin> schedule_id ` set rest"
      using Cons.prems(1) by simp
    have "schedules (fst (check_and_post_scheduled B T now rest d)) (schedule_id a)
          = schedules d (schedule_id a)" for d
      using notin sweep_tables [of B T now rest d "schedule_id a"] by simp
    then show ?thesis
      using True by (simp add: sweep_Cons_fst del: check_and_post_scheduled.simps)
  next
    case False
    then have s: "s \<in> set rest" and d: "distinct (map schedule_id rest)"
      using Cons.prems by auto
    have "schedule_id a \<notin> schedule_id ` set rest"
      using Cons.prems(1) by simp
    then have ne: "schedule_id s \<noteq> schedule_id a"
      using s by (metis imageI)
    have row: "schedules db1 (schedule_id s) = schedules db (schedule_id s)"
      using ne by (simp add: db1_def post_scheduled_other_rows)
    have same: "schedules (fst (post_scheduled B T now s db1)) (schedule_id s)
                = schedules (fst (post_scheduled B T now s db)) (schedule_id s)"
      unfolding post_scheduled_row dispatch_post_cong [OF t] row by (rule refl)
    show ?thesis
      using Cons.IH [OF d s, of db] Cons.IH [OF d s, of db1] same row
      by (simp add: sweep_Cons_fst db1_def [symmetric] del: check_and_post_scheduled.simps)
  qed
qed

text \<open>
  C5. In a sweep over schedules with distinct ids, for each schedule of the sweep: when
  its dispatch does not succeed (the post is skipped or an exception is raised), its row,
  with \<open>next_post_at\<close> and \<open>last_posted_at\<close>, is left as it was; its row changes only if
  it was due and its dispatch succeeded; and whenever it is due, its dispatch succeeds
  and the next time is computed, its row is advanced to that time with the sweep time as
  \<open>last_posted_at\<close>, whatever happened to the other schedules of the sweep.
\<close>

theorem sweep_isolates_failures:
  assumes "distinct (map schedule_id scheds)" and "s \<in> set scheds"
  shows "(let db' = fst (check_and_post_scheduled B T now scheds db)
          in (dispatch_post B T s db \<noteq> Sent \<longrightarrow>
                schedules db' (schedule_id s) = schedules db (schedule_id s))
             \<and> (schedules db' (schedule_id s) \<noteq> schedules db (schedule_id s) \<longrightarrow>
                  is_due now s \<and> dispatch_post B T s db = Sent)
             \<and> (\<forall>np. is_due now s \<and> dispatch_post B T s db = Sent
                     \<and> calculate_next_post_time (clock_at T (schedule_id s)) (interval_days s)
                          (post_time s) = Inr np \<longrightarrow>
                   schedules db' (schedule_id s)
                     = map_option (\<lambda>r. r\<lparr>last_posted_at := Some now, next_post_at := Some np\<rparr>)
                         (schedules db (schedule_id s))))"
  unfolding Let_def sweep_row [OF assms] post_scheduled_row
  by (auto split: dispatch.splits sum.splits)

theorem sweep_isolates_failures_witness:
  "(let db' = fst (check_and_post_scheduled plain_builtins one_channel_down sweep_time
                     [sample_schedule 1 (py ''@down''), sample_schedule 2 (py ''@shop'')]
                     schedule_db)
    in schedules db' 1 = Some (sample_schedule 1 (py ''@down''))
       \<and> schedules db' 2 =
           Some ((sample_schedule 2 (py ''@shop''))
                   \<lparr>last_posted_at := Some sweep_time,
                    next_post_at := Some \<lparr>ordinal = 739003, hour = 9, minute = 0, second = 0,
                                          microsecond = 0\<rparr>\<rparr>))"
proof -
  let ?s1 = "sample_schedule 1 (py ''@down'')"
  let ?s2 = "sample_schedule 2 (py ''@shop'')"
  let ?db' = "fst (check_and_post_scheduled plain_builtins one_channel_down sweep_time
                     [?s1, ?s2] schedule_db)"
  let ?np = "\<lparr>ordinal = 739003, hour = 9, minute = 0, second = 0, microsecond = 0\<rparr>"
  have ids: "schedule_id ?s1 = 1" "schedule_id ?s2 = 2"
    by (simp_all add: sample_schedule_def)
  have d: "distinct (map schedule_id [?s1, ?s2])"
    by (simp add: sample_schedule_def)
  have rows: "schedules schedule_db 1 = Some ?s1" "schedules schedule_db 2 = Some ?s2"
    by (simp_all add: schedule_db_def)
  have down: "dispatch_post plain_builtins one_channel_down ?s1 schedule_db \<noteq> Sent"
    by (simp add: dispatch_post_def sample_schedule_def schedule_db_def sample_product_def
          one_channel_down_def Let_def)
  have up: "dispatch_post plain_builtins one_channel_down ?s2 schedule_db = Sent"
    by (simp add: dispatch_post_def sample_schedule_def schedule_db_def sample_product_def
          one_channel_down_def Let_def)
  have due: "is_due sweep_time ?s2"
    by (simp add: is_due_def sample_schedule_def sweep_time_def dt_le_def dt_less_def)
  have np: "calculate_next_post_time (clock_at one_channel_down (schedule_id ?s2))
              (interval_days ?s2) (post_time ?s2) = Inr ?np"
    by (simp add: calculate_next_post_time_def parse_post_time_def py_int_def
          strip_numeric_def isspace_numeric_def isspace_def isdigit_def decimal_def
          replace_time_def add_days_def MAXORDINAL_def one_channel_down_def sweep_time_def
          dt_le_def dt_less_def sample_schedule_def)
  have m1: "?s1 \<in> set [?s1, ?s2]" and m2: "?s2 \<in> set [?s1, ?s2]"
    by simp_all
  note t1 = sweep_isolates_failures [OF d m1, of plain_builtins one_channel_down sweep_time
              schedule_db, unfolded Let_def]
  note t2 = sweep_isolates_failures [OF d m2, of plain_builtins one_channel_down sweep_time
              schedule_db, unfolded Let_def]
  have "schedules ?db' (schedule_id ?s1) = schedules schedule_db (schedule_id ?s1)"
    using t1 down by blast
  then have r1: "schedules ?db' 1 = Some ?s1"
    unfolding ids rows .
  have "schedules ?db' (schedule_id ?s2)
        = map_option (\<lambda>r. r\<lparr>last_posted_at := Some sweep_time, next_post_at := Some ?np\<rparr>)
            (schedules schedule_db (schedule_id ?s2))"
    using t2 due up np by blast
  then have r2: "schedules ?db' 2
        = Some (?s2\<lparr>last_posted_at := Some sweep_time, next_post_at := Some ?np\<rparr>)"
    unfolding ids rows option.map .
  show ?thesis
    unfolding Let_def using r1 r2 by (rule conjI)
qed

section \<open>Properties of photo collection\<close>

lemma send_fsm [simp]: "fsm (send r w) = fsm w"
  by (simp add: send_def)

lemma send_sent [simp]: "sent (send r w) = sent w @ [r]"
  by (simp add: send_def)

lemma count_list_remove1_other: "x \<noteq> y \<Longrightarrow> count_list (remove1 x xs) y = count_list xs y"
  by (induction xs) auto

lemma count_list_0_notin: "count_list xs x = 0 \<Longrightarrow> x \<notin> set xs"
  by (induction xs) (auto split: if_splits)

lemma count_list_remove1_same: "count_list (remove1 x xs) x = count_list xs x - 1"
  by (induction xs) auto

lemma photo_keeps_batch_inv:
  assumes "batch_inv g w items"
  shows "batch_inv g (product_photo_received S m w) (items @ buffered_item S g (PhotoMessage m))"
proof (cases "msg_media_group_id m")
  case None
  then show ?thesis
    using assms
    by (auto simp: batch_inv_def product_photo_received_def buffered_item_def send_def Let_def
             split: option.splits)
next
  case (Some g')
  then show ?thesis
    using assms
    by (auto simp: batch_inv_def product_photo_received_def buffered_item_def send_def Let_def
             split: option.splits)
qed

lemma timer_keeps_batch_inv:
  assumes "batch_inv g w items" and "g' \<noteq> g"
  shows "batch_inv g (process_album_later g' w) items"
  using assms
  by (auto simp: batch_inv_def process_album_later_def send_def Let_def count_list_remove1_other
           split: option.splits if_splits)

lemma step_keeps_batch_inv:
  assumes "batch_inv g w items" and "ev \<noteq> AlbumTimer g"
  shows "batch_inv g (step S w ev) (items @ buffered_item S g ev)"
proof (cases ev)
  case (PhotoMessage m)
  then show ?thesis using assms(1) by (simp add: photo_keeps_batch_inv)
next
  case (AlbumTimer g')
  then have "g' \<noteq> g" using assms(2) by simp
  then show ?thesis
    using AlbumTimer assms(1) by (simp add: timer_keeps_batch_inv buffered_item_def)
qed

lemma run_keeps_batch_inv:
  assumes "batch_inv g w items" and "AlbumTimer g \<notin> set evs"
  shows "batch_inv g (run S evs w) (items @ batch_arrivals S g evs)"
  using assms
proof (induction evs arbitrary: w items)
  case Nil
  then show ?case by (simp add: run_def batch_arrivals_def)
next
  case (Cons ev evs)
  have "batch_inv g (step S w ev) (items @ buffered_item S g ev)"
    using Cons.prems by (intro step_keeps_batch_inv) auto
  then have "batch_inv g (run S evs (step S w ev))
               ((items @ buffered_item S g ev) @ batch_arrivals S g evs)"
    using Cons.prems by (intro Cons.IH) auto
  then show ?case by (simp add: run_def batch_arrivals_def)
qed

lemma fire_merges:
  assumes "batch_inv g w items" and "items \<noteq> []"
  shows "process_album_later g w =
           w\<lparr>tasks := remove1 g (tasks w),
             fsm := (fsm w)\<lparr>data_collected_photos :=
                      Some (get_collected_photos (fsm w) @ map (as_collected g) items)\<rparr>,
             album_buffer := (album_buffer w)(g := None),
             album_tasks_scheduled := album_tasks_scheduled w - {g},
             sent := sent w @ [Answer (msg_id (item_message (last items)))
                                (PhotoReceived (remaining (get_collected_photos (fsm w)
                                   @ map (as_collected g) items)))]\<rparr>"
  using assms
  by (simp add: batch_inv_def process_album_later_def send_def Let_def as_collected_def [abs_def])

lemma fire_empty_noop:
  assumes "album_buffer w g = None" and "g \<notin> album_tasks_scheduled w" and "g \<notin> set (tasks w)"
  shows "process_album_later g w = w"
  using assms by (simp add: process_album_later_def Let_def remove1_idem)

text \<open>A buffered arrival touches neither the context nor the replies.\<close>

lemma buffered_arrival_frame:
  assumes "buffered_item S g (PhotoMessage m) \<noteq> []"
  shows "fsm (product_photo_received S m w) = fsm w
         \<and> sent (product_photo_received S m w) = sent w"
  using assms
  by (auto simp: buffered_item_def product_photo_received_def Let_def
           split: option.splits if_splits)

lemma batch_only_frame:
  assumes "\<forall>ev \<in> set evs. buffered_item S g ev \<noteq> []"
  shows "fsm (run S evs w) = fsm w \<and> sent (run S evs w) = sent w
         \<and> length (batch_arrivals S g evs) = length evs"
  using assms
proof (induction evs arbitrary: w)
  case Nil
  then show ?case by (simp add: run_def batch_arrivals_def)
next
  case (Cons ev evs)
  then obtain m where ev: "ev = PhotoMessage m"
    by (cases ev) (auto simp: buffered_item_def)
  have one: "length (buffered_item S g ev) = 1"
    using Cons.prems by (auto simp: buffered_item_def split: event.splits option.splits if_splits)
  have "fsm (step S w ev) = fsm w \<and> sent (step S w ev) = sent w"
    using Cons.prems ev buffered_arrival_frame [of S g m w] by simp
  moreover have "fsm (run S evs (step S w ev)) = fsm (step S w ev)
                 \<and> sent (run S evs (step S w ev)) = sent (step S w ev)
                 \<and> length (batch_arrivals S g evs) = length evs"
    using Cons.prems by (intro Cons.IH) simp
  ultimately show ?case
    using one by (simp add: run_def batch_arrivals_def)
qed

text \<open>
  More generally, as long as the timer of batch \<open>g\<close> has not fired, context and replies
  are what they would be had the photos of batch \<open>g\<close> never arrived.
\<close>

lemma same_outside_buffered:
  assumes "same_outside g w w'" and "buffered_item S g ev \<noteq> []"
  shows "same_outside g (step S w ev) w'"
proof (cases ev)
  case (PhotoMessage m)
  then show ?thesis
    using assms
    by (auto simp: same_outside_def buffered_item_def product_photo_received_def Let_def
             split: option.splits if_splits)
next
  case (AlbumTimer g')
  then show ?thesis using assms by (simp add: buffered_item_def)
qed

lemma same_outside_photo:
  assumes "same_outside g w w'" and "buffered_item S g (PhotoMessage m) = []"
  shows "same_outside g (product_photo_received S m w) (product_photo_received S m w')"
proof (cases "msg_media_group_id m")
  case None
  then show ?thesis
    using assms
    by (auto simp: same_outside_def product_photo_received_def send_def Let_def
             split: option.splits)
next
  case (Some g')
  then show ?thesis
    using assms
    by (auto simp: same_outside_def buffered_item_def product_photo_received_def send_def
                   Let_def
             split: option.splits if_splits)
qed

lemma same_outside_timer:
  assumes "same_outside g w w'" and "g' \<noteq> g"
  shows "same_outside g (process_album_later g' w) (process_album_later g' w')"
  using assms
  by (auto simp: same_outside_def process_album_later_def send_def Let_def
           split: option.splits)

lemma run_same_outside:
  assumes "same_outside g w w'" and "AlbumTimer g \<notin> set evs"
  shows "same_outside g (run S evs w) (run S (without_batch S g evs) w')"
  using assms
proof (induction evs arbitrary: w w')
  case Nil
  then show ?case by (simp add: run_def without_batch_def)
next
  case (Cons ev evs)
  have rest: "AlbumTimer g \<notin> set evs" using Cons.prems(2) by simp
  show ?case
  proof (cases "buffered_item S g ev = []")
    case False
    have "same_outside g (step S w ev) w'"
      using Cons.prems(1) False by (rule same_outside_buffered)
    then have "same_outside g (run S evs (step S w ev)) (run S (without_batch S g evs) w')"
      using rest by (rule Cons.IH)
    then show ?thesis using False by (simp add: run_def without_batch_def)
  next
    case True
    have "same_outside g (step S w ev) (step S w' ev)"
    proof (cases ev)
      case (PhotoMessage m)
      then show ?thesis using Cons.prems(1) True by (simp add: same_outside_photo)
    next
      case (AlbumTimer g')
      then have "g' \<noteq> g" using Cons.prems(2) by auto
      then show ?thesis using AlbumTimer Cons.prems(1) by (simp add: same_outside_timer)
    qed
    then have "same_outside g (run S evs (step S w ev))
                 (run S (without_batch S g evs) (step S w' ev))"
      using rest by (rule Cons.IH)
    then show ?thesis using True by (simp add: run_def without_batch_def)
  qed
qed

lemma batch_frame:
  assumes "AlbumTimer g \<notin> set evs"
  shows "fsm (run S evs w) = fsm (run S (without_batch S g evs) w)
         \<and> sent (run S evs w) = sent (run S (without_batch S g evs) w)"
proof -
  have "same_outside g w w" by (simp add: same_outside_def)
  then have "same_outside g (run S evs w) (run S (without_batch S g evs) w)"
    using assms by (rule run_same_outside)
  then show ?thesis by (simp add: same_outside_def)
qed

text \<open>
  What the code does guarantee. Take a batch id with nothing buffered, no flag and no
  pending task, and any sequence of events in which the timer of that batch does not
  fire: photo messages of this batch (at least one that is buffered), of other batches
  and without a batch, and timers of other batches, in any order. Until the timer fires,
  the batch has changed neither the context nor the replies; exactly one timer task is
  pending for it and the buffer holds all its photos in arrival order. When the timer
  fires, the photos are appended to the collected photos in that order, one prompt is
  sent, and buffer entry, flag and task are gone; firing the timer once more changes
  nothing at all.
\<close>

lemma album_batch_merged_once:
  assumes "album_buffer w g = None" and "g \<notin> album_tasks_scheduled w"
    and "g \<notin> set (tasks w)"
    and "AlbumTimer g \<notin> set evs" and "batch_arrivals S g evs \<noteq> []"
  shows "(let items = batch_arrivals S g evs;
              w1 = run S evs w;
              w2 = process_album_later g w1;
              merged = get_collected_photos (fsm w1)
                       @ map (\<lambda>item. \<lparr>original_path = item_original_path item,
                                          file_id = item_file_id item,
                                          media_group_id = Some g\<rparr>) items
          in fsm w1 = fsm (run S (without_batch S g evs) w)
             \<and> sent w1 = sent (run S (without_batch S g evs) w)
             \<and> count_list (tasks w1) g = 1
             \<and> album_buffer w1 g = Some items
             \<and> fsm w2 = (fsm w1)\<lparr>data_collected_photos := Some merged\<rparr>
             \<and> sent w2 = sent w1 @ [Answer (msg_id (item_message (last items)))
                                       (PhotoReceived (remaining merged))]
             \<and> album_buffer w2 g = None
             \<and> g \<notin> album_tasks_scheduled w2
             \<and> g \<notin> set (tasks w2)
             \<and> process_album_later g w2 = w2)"
proof -
  define items where "items = batch_arrivals S g evs"
  define w1 where "w1 = run S evs w"
  define w2 where "w2 = process_album_later g w1"
  define merged where "merged = get_collected_photos (fsm w1)
                       @ map (\<lambda>item. \<lparr>original_path = item_original_path item,
                                          file_id = item_file_id item,
                                          media_group_id = Some g\<rparr>) items"
  have merged': "merged = get_collected_photos (fsm w1) @ map (as_collected g) items"
    by (simp add: merged_def as_collected_def [abs_def])
  have frame: "fsm w1 = fsm (run S (without_batch S g evs) w)"
    "sent w1 = sent (run S (without_batch S g evs) w)"
    unfolding w1_def using batch_frame [OF assms(4), of S w] by simp_all
  have "batch_inv g w []"
    using assms(1-3) by (simp add: batch_inv_def count_list_0_iff)
  then have "batch_inv g w1 ([] @ items)"
    unfolding w1_def items_def using assms(4) by (rule run_keeps_batch_inv)
  then have inv: "batch_inv g w1 items" by simp
  have ne: "items \<noteq> []" using assms(5) by (simp add: items_def)
  have pending: "count_list (tasks w1) g = 1" and buf: "album_buffer w1 g = Some items"
    using inv ne by (simp_all add: batch_inv_def)
  have w2: "w2 = w1\<lparr>tasks := remove1 g (tasks w1),
             fsm := (fsm w1)\<lparr>data_collected_photos := Some merged\<rparr>,
             album_buffer := (album_buffer w1)(g := None),
             album_tasks_scheduled := album_tasks_scheduled w1 - {g},
             sent := sent w1 @ [Answer (msg_id (item_message (last items)))
                                 (PhotoReceived (remaining merged))]\<rparr>"
    unfolding w2_def merged' using inv ne by (rule fire_merges)
  have "count_list (remove1 g (tasks w1)) g = 0"
    using pending by (simp add: count_list_remove1_same)
  then have gone: "g \<notin> set (tasks w2)"
    unfolding w2 by (simp add: count_list_0_notin)
  have cleared: "album_buffer w2 g = None" "g \<notin> album_tasks_scheduled w2"
    unfolding w2 by simp_all
  have again: "process_album_later g w2 = w2"
    using cleared gone by (rule fire_empty_noop)
  have "fsm w2 = (fsm w1)\<lparr>data_collected_photos := Some merged\<rparr>"
    and "sent w2 = sent w1 @ [Answer (msg_id (item_message (last items)))
                               (PhotoReceived (remaining merged))]"
    unfolding w2 by simp_all
  then show ?thesis
    unfolding Let_def items_def [symmetric] w1_def [symmetric] w2_def [symmetric]
      merged_def [symmetric]
    using frame pending buf cleared gone again by simp
qed

text \<open>
  For a batch that arrives on its own, from a state that holds nothing of it: every
  event is a buffered photo of batch \<open>g\<close>, then the timer fires. Nothing is sent and
  the context is untouched until then; the one fire appends all the photos in arrival
  order and sends the one prompt; a second fire is a no-op.
\<close>

lemma album_alone_merged_once:
  assumes "album_buffer w g = None" and "g \<notin> album_tasks_scheduled w"
    and "g \<notin> set (tasks w)"
    and "evs \<noteq> []" and "\<forall>ev \<in> set evs. buffered_item S g ev \<noteq> []"
  shows "(let items = batch_arrivals S g evs;
              w1 = run S evs w;
              w2 = process_album_later g w1;
              merged = get_collected_photos (fsm w)
                       @ map (\<lambda>item. \<lparr>original_path = item_original_path item,
                                          file_id = item_file_id item,
                                          media_group_id = Some g\<rparr>) items
          in length items = length evs
             \<and> fsm w1 = fsm w \<and> sent w1 = sent w
             \<and> count_list (tasks w1) g = 1
             \<and> fsm w2 = (fsm w)\<lparr>data_collected_photos := Some merged\<rparr>
             \<and> sent w2 = sent w @ [Answer (msg_id (item_message (last items)))
                                      (PhotoReceived (remaining merged))]
             \<and> process_album_later g w2 = w2)"
proof -
  have fr: "fsm (run S evs w) = fsm w" "sent (run S evs w) = sent w"
    "length (batch_arrivals S g evs) = length evs"
    using batch_only_frame [OF assms(5), of w] by simp_all
  have notimer: "AlbumTimer g \<notin> set evs"
    using assms(5) by (auto simp: buffered_item_def)
  have ne: "batch_arrivals S g evs \<noteq> []"
    using fr(3) assms(4) by auto
  show ?thesis
    using album_batch_merged_once [OF assms(1-3) notimer ne] fr
    by (simp add: Let_def)
qed

lemma album_alone_merged_once_example:
  "(let w2 = process_album_later (py ''g'')
               (run reliable_services
                  [PhotoMessage (photo_message 1 (py ''a'') (Some (py ''g''))),
                   PhotoMessage (photo_message 2 (py ''b'') (Some (py ''g'')))]
                  (fresh_world waiting_photo))
    in map original_path (get_collected_photos (fsm w2)) = [py ''media/a'', py ''media/b'']
       \<and> sent w2 = [Answer 2 (PhotoReceived 6)]
       \<and> process_album_later (py ''g'') w2 = w2)"
  using album_alone_merged_once [of "fresh_world waiting_photo" "py ''g''"
     "[PhotoMessage (photo_message 1 (py ''a'') (Some (py ''g''))),
       PhotoMessage (photo_message 2 (py ''b'') (Some (py ''g'')))]" reliable_services]
  by (simp add: run_def product_photo_received_def process_album_later_def send_def Let_def
        get_collected_photos_def remaining_def photo_message_def fresh_world_def
        fresh_context_def reliable_services_def batch_arrivals_def buffered_item_def)

text \<open>
  C1 does not hold of the code when the timer of a batch fires between two of its
  arrivals. The task sleeps a fixed time after the first buffered photo and is not
  re-armed by later ones; when it runs it clears the flag, so a photo of the same batch
  that is buffered afterwards arms a second task. Two photos of batch \<open>g\<close>, the timer
  firing in between: the first fire merges one photo and prompts, the second photo arms a
  new task, and the second fire merges the other photo and prompts again.
\<close>

theorem album_split_by_timer:
  "sent (run reliable_services
          [PhotoMessage (photo_message 1 (py ''a'') (Some (py ''g''))),
           AlbumTimer (py ''g''),
           PhotoMessage (photo_message 2 (py ''b'') (Some (py ''g''))),
           AlbumTimer (py ''g'')]
          (fresh_world waiting_photo))
   = [Answer 1 (PhotoReceived 7), Answer 2 (PhotoReceived 6)]
   \<and> map original_path (get_collected_photos (fsm (run reliable_services
          [PhotoMessage (photo_message 1 (py ''a'') (Some (py ''g''))),
           AlbumTimer (py ''g'')]
          (fresh_world waiting_photo))))
     = [py ''media/a'']
   \<and> tasks (run reliable_services
          [PhotoMessage (photo_message 1 (py ''a'') (Some (py ''g''))),
           AlbumTimer (py ''g''),
           PhotoMessage (photo_message 2 (py ''b'') (Some (py ''g'')))]
          (fresh_world waiting_photo))
     = [py ''g'']"
  by (simp add: run_def product_photo_received_def process_album_later_def send_def Let_def
        get_collected_photos_def remaining_def photo_message_def fresh_world_def
        fresh_context_def reliable_services_def)

text \<open>A photo without a batch id that is fetched is always appended.\<close>

lemma direct_photo_appended:
  assumes "msg_photo m = Some sizes" and "sizes \<noteq> []" and "download S m = Some file_path"
    and "\<not> truthy_str (msg_media_group_id m)"
  shows "get_collected_photos (fsm (product_photo_received S m w))
         = get_collected_photos (fsm w)
           @ [\<lparr>original_path = file_path, file_id = ps_file_id (last sizes),
               media_group_id = None\<rparr>]"
  using assms
  by (simp add: product_photo_received_def get_collected_photos_def send_def Let_def)

text \<open>
  C2 does not hold of the code: nothing limits the collected photos. Nine photos sent one
  by one are all collected, the ninth answered like the second; and an album of nine
  is merged whole, with the prompt announcing room for 0 more.
\<close>

theorem ninth_photo_collected:
  "(let w = run reliable_services
              (map (\<lambda>i. PhotoMessage (photo_message i (py ''a'') None))
                 [1, 2, 3, 4, 5, 6, 7, 8, 9])
              (fresh_world waiting_photo)
    in length (get_collected_photos (fsm w)) = 9
       \<and> last (sent w) = Answer 9 AdditionalPhotoReceived)
   \<and> (let w = run reliable_services
                (map (\<lambda>i. PhotoMessage (photo_message i (py ''a'') (Some (py ''g''))))
                   [1, 2, 3, 4, 5, 6, 7, 8, 9] @ [AlbumTimer (py ''g'')])
                (fresh_world waiting_photo)
       in length (get_collected_photos (fsm w)) = 9
          \<and> sent w = [Answer 9 (PhotoReceived 0)])"
  by (simp add: run_def product_photo_received_def process_album_later_def send_def Let_def
        get_collected_photos_def remaining_def photo_message_def fresh_world_def
        fresh_context_def reliable_services_def)

section \<open>Properties of the intake steps\<close>

text \<open>With no collected photo the operation only reports it.\<close>

lemma photos_done_empty:
  assumes "get_collected_photos (fsm w) = []"
  shows "handle_photos_done S cb w = send (CallbackAnswer (Some NoPhotosYet) True) w"
  using assms by (simp add: handle_photos_done_def Let_def)

text \<open>
  With one collected photo, a pressed button on a message without a photo ends in the
  error alert, for every context and every service.
\<close>

lemma photos_done_without_photo:
  assumes "length (get_collected_photos (fsm w)) = 1" and "msg_photo (cb_message cb) = None"
  shows "handle_photos_done S cb w = send (CallbackAnswer (Some ErrorProcessingPhotos) True) w"
  using assms by (auto simp: handle_photos_done_def process_single_photo_def Let_def)

lemma watermark_all_reliable:
  assumes "\<And>a n b. add_watermark S a n b \<noteq> []" and "\<And>p. path_exists S p"
  shows "length (fst (watermark_all S name ps)) = length ps
         \<and> snd (watermark_all S name ps) = map original_path ps"
  using assms by (induction ps) (auto simp: Let_def split: prod.splits)

text \<open>
  With more than one collected photo, and services that deliver, every photo gets its
  stamped variant and the context enters the main-image selection.
\<close>

lemma photos_done_many:
  assumes "length (get_collected_photos (fsm w)) > 1"
    and "\<And>a n b. add_watermark S a n b \<noteq> []" and "\<And>p. path_exists S p"
    and "\<And>ps. answer_media_group S ps"
  shows "(let w' = handle_photos_done S cb w
          in current_state (fsm w') = Some waiting_main_image
             \<and> map_option length (data_all_images (fsm w'))
                 = Some (length (get_collected_photos (fsm w)))
             \<and> data_all_original_images (fsm w')
                 = Some (map original_path (get_collected_photos (fsm w))))"
proof -
  let ?name = "store_name_of (get_user S (msg_from_user (cb_message cb)))"
  let ?ps = "get_collected_photos (fsm w)"
  obtain ws os where wa: "watermark_all S ?name ?ps = (ws, os)"
    by (cases "watermark_all S ?name ?ps")
  have l: "length ws = length ?ps" and o: "os = map original_path ?ps"
    using watermark_all_reliable [OF assms(2,3), of ?name ?ps] wa by simp_all
  have "ws \<noteq> []" using l assms(1) by auto
  then show ?thesis
    using assms(1,4) l o wa
    by (auto simp: handle_photos_done_def process_multiple_photos_def Let_def)
qed

text \<open>
  C4 does not hold of the code for a draft with exactly one photo. The user sends one
  photo and presses \<open>Done adding photos\<close> on the prompt that followed. The handler passes
  that prompt, a text message of the bot, to \<open>process_single_photo\<close>, which reads its
  photo: the exception is caught, the alert \<open>Error processing photos\<close> is shown, and the
  context stays where it was, in the photo step with one collected photo and no image
  chosen.
\<close>

theorem single_photo_done_fails:
  "(let w1 = product_photo_received reliable_services (photo_message 1 (py ''a'') None)
               (fresh_world waiting_photo);
        w2 = handle_photos_done reliable_services
               \<lparr>cb_data = py ''photos_done'',
                cb_message = prompt_message 2 0 (py ''Photo received!'')\<rparr> w1
    in length (get_collected_photos (fsm w1)) = 1
       \<and> sent w1 = [Answer 1 (PhotoReceived 7)]
       \<and> fsm w2 = fsm w1
       \<and> current_state (fsm w2) = Some waiting_photo
       \<and> data_main_image_index (fsm w2) = None
       \<and> sent w2 = sent w1 @ [CallbackAnswer (Some ErrorProcessingPhotos) True])"
  by (simp add: product_photo_received_def handle_photos_done_def process_single_photo_def
        prompt_message_def photo_message_def fresh_world_def fresh_context_def
        reliable_services_def get_collected_photos_def remaining_def Let_def)

text \<open>
  C7. Let the callback data end, after its last underscore, in the integer \<open>i\<close>, and let
  the draft hold stamped and unstamped image lists of equal length. If \<open>i\<close> is not within
  \<open>[0, count)\<close> the operation answers \<open>Invalid selection\<close> as an alert and changes
  nothing else: draft and state are as before. If \<open>i\<close> is within range, the draft records
  \<open>i\<close> as main image index with the stamped and unstamped paths at \<open>i\<close>, nothing else
  in it changes, and the state becomes the description step when the draft's product type
  is \<open>custom_description\<close> and the title step otherwise (a standard product, or no type
  recorded); the selection is acknowledged and the prompt of that step is sent.
\<close>

theorem main_image_selection_spec:
  assumes "py_int (last (split_on 95 (cb_data cb))) = Some i"
    and "data_all_images (fsm w) = Some imgs"
    and "data_all_original_images (fsm w) = Some origs"
    and "length imgs = length origs"
  shows "(i < 0 \<or> int (length imgs) \<le> i \<longrightarrow>
            handle_main_image_selection cb w
              = w\<lparr>sent := sent w @ [CallbackAnswer (Some InvalidSelection) True]\<rparr>)
       \<and> (0 \<le> i \<and> i < int (length imgs) \<longrightarrow>
            handle_main_image_selection cb w
              = w\<lparr>fsm := (fsm w)
                     \<lparr>data_photo_path := Some (imgs ! nat i),
                      data_original_photo_path := Some (origs ! nat i),
                      data_main_image_index := Some i,
                      current_state :=
                        Some (if data_product_type (fsm w) = Some (py ''custom_description'')
                              then waiting_description else waiting_title)\<rparr>,
                   sent := sent w @
                     [CallbackAnswer (Some (ImageSelected (i + 1))) False,
                      Answer (msg_id (cb_message cb))
                        (if data_product_type (fsm w) = Some (py ''custom_description'')
                         then MainImageSelectedAskDescription
                         else MainImageSelectedAskTitle)]\<rparr>)"
  using assms
  by (cases "data_product_type (fsm w)")
     (auto simp: handle_main_image_selection_def Let_def get_product_type_def send_def)

theorem main_image_selection_spec_witness:
  "handle_main_image_selection (select_callback (py ''select_main_2'')) two_image_world
     = two_image_world\<lparr>sent := [CallbackAnswer (Some InvalidSelection) True]\<rparr>
   \<and> handle_main_image_selection (select_callback (py ''select_main_-1'')) two_image_world
     = two_image_world\<lparr>sent := [CallbackAnswer (Some InvalidSelection) True]\<rparr>
   \<and> handle_main_image_selection (select_callback (py ''select_main_1'')) two_image_world
     = two_image_world
         \<lparr>fsm := (fsm two_image_world)
            \<lparr>data_photo_path := Some (py ''b_watermarked.jpg''),
             data_original_photo_path := Some (py ''b.jpg''),
             data_main_image_index := Some 1,
             current_state := Some waiting_title\<rparr>,
          sent := [CallbackAnswer (Some (ImageSelected 2)) False,
                   Answer 5 MainImageSelectedAskTitle]\<rparr>
   \<and> handle_main_image_selection (select_callback (py ''select_main_0''))
       custom_two_image_world
     = custom_two_image_world
         \<lparr>fsm := (fsm custom_two_image_world)
            \<lparr>data_photo_path := Some (py ''a_watermarked.jpg''),
             data_original_photo_path := Some (py ''a.jpg''),
             data_main_image_index := Some 0,
             current_state := Some waiting_description\<rparr>,
          sent := [CallbackAnswer (Some (ImageSelected 1)) False,
                   Answer 5 MainImageSelectedAskDescription]\<rparr>"
proof -
  let ?imgs = "[py ''a_watermarked.jpg'', py ''b_watermarked.jpg'']"
  let ?origs = "[py ''a.jpg'', py ''b.jpg'']"
  have i2: "py_int (last (split_on 95 (cb_data (select_callback (py ''select_main_2''))))) = Some 2"
    and im: "py_int (last (split_on 95 (cb_data (select_callback (py ''select_main_-1''))))) = Some (- 1)"
    and i1: "py_int (last (split_on 95 (cb_data (select_callback (py ''select_main_1''))))) = Some 1"
    and i0: "py_int (last (split_on 95 (cb_data (select_callback (py ''select_main_0''))))) = Some 0"
    by (simp_all add: select_callback_def py_int_def strip_numeric_def isspace_numeric_def
          isspace_def isdigit_def decimal_def)
  have imgs: "data_all_images (fsm two_image_world) = Some ?imgs"
    and origs: "data_all_original_images (fsm two_image_world) = Some ?origs"
    and cimgs: "data_all_images (fsm custom_two_image_world) = Some ?imgs"
    and corigs: "data_all_original_images (fsm custom_two_image_world) = Some ?origs"
    by (simp_all add: custom_two_image_world_def two_image_world_def fresh_world_def
          fresh_context_def)
  have len: "length ?imgs = length ?origs"
    by simp
  have ty: "data_product_type (fsm two_image_world) = None"
    "data_product_type (fsm custom_two_image_world) = Some (py ''custom_description'')"
    by (simp_all add: custom_two_image_world_def two_image_world_def fresh_world_def
          fresh_context_def)
  have snt: "sent two_image_world = []" "sent custom_two_image_world = []"
    by (simp_all add: custom_two_image_world_def two_image_world_def fresh_world_def)
  have mid: "msg_id (cb_message (select_callback p)) = 5" for p
    by (simp add: select_callback_def prompt_message_def)
  show ?thesis
    using main_image_selection_spec [OF i2 imgs origs len]
      main_image_selection_spec [OF im imgs origs len]
      main_image_selection_spec [OF i1 imgs origs len]
      main_image_selection_spec [OF i0 cimgs corigs len]
    by (simp add: ty snt mid del: py_simps)
qed

section \<open>Properties of the text steps\<close>

text \<open>
  The title step accepts exactly the texts whose stripped length is within 3 and 200;
  a rejected text changes nothing but the answer sent.
\<close>

lemma title_validation:
  assumes "msg_text m = Some txt"
  shows "(3 \<le> length (strip txt) \<and> length (strip txt) \<le> 200 \<longrightarrow>
            (\<exists>w'. product_title_received m w = Inr w'
                  \<and> data_title (fsm w') = Some (strip txt)
                  \<and> current_state (fsm w') =
                      Some (if get_product_type (fsm w) = py ''custom_description''
                            then waiting_price else waiting_description)))
       \<and> (length (strip txt) < 3 \<longrightarrow>
            product_title_received m w = Inr (send (Answer (msg_id m) TitleTooShort) w))
       \<and> (200 < length (strip txt) \<longrightarrow>
            product_title_received m w = Inr (send (Answer (msg_id m) TitleTooLong) w))"
  using assms
  by (auto simp: product_title_received_def Let_def get_product_type_def)

text \<open>The description step accepts exactly the texts whose stripped length is at most 1000.\<close>

lemma description_validation:
  assumes "msg_text m = Some txt"
  shows "(length (strip txt) \<le> 1000 \<longrightarrow>
            (\<exists>w'. product_description_received m w = Inr w'
                  \<and> data_description (fsm w') = Some (strip txt)
                  \<and> current_state (fsm w') =
                      Some (if get_product_type (fsm w) = py ''custom_description''
                            then waiting_title else waiting_price)))
       \<and> (1000 < length (strip txt) \<longrightarrow>
            product_description_received m w
              = Inr (send (Answer (msg_id m) DescriptionTooLong) w))"
  using assms
  by (auto simp: product_description_received_def Let_def get_product_type_def)

text \<open>
  The price step either leaves the context as it was, or stores a price that is neither
  \<open><= 0\<close> nor \<open>> 10000000\<close>.
\<close>

lemma price_step_outcomes:
  assumes "product_price_received m w = Inr (w', k)"
  shows "fsm w' = fsm w
         \<or> (\<exists>prc. data_price (fsm w') = Some prc \<and> \<not> float_le prc 0 \<and> \<not> float_gt prc 10000000)"
  using assms
  by (auto simp: product_price_received_def Let_def split: option.splits if_splits)

text \<open>
  C6 does not hold of the code for the price: the text \<open>nan\<close> parses to a NaN, both
  comparisons with it are false, and in every context the handler stores the NaN as the
  price and goes on as after a valid price, sending no error.
\<close>

theorem nan_price_accepted:
  "product_price_received (text_message mid (py ''nan'')) w
     = (let w' = w\<lparr>fsm := (fsm w)\<lparr>data_price := Some NaN\<rparr>\<rparr>
        in if get_product_type (fsm w) = py ''custom_description''
           then Inr (w', ShowCustomDescriptionPreview)
           else if truthy_str (data_category (fsm w))
           then Inr (w', ShowCategoryFields (the (data_category (fsm w))))
           else Inr ((send (Answer mid (PriceSavedAskCategory NaN)) w')
                       \<lparr>fsm := (fsm w')\<lparr>current_state := Some waiting_category\<rparr>\<rparr>, Finished))"
  by (simp add: product_price_received_def text_message_def py_float_def strip_def
        strip_numeric_def isspace_numeric_def isspace_def remove_char_def lower_def
        get_product_type_def Let_def)

text \<open>
  C10. For every text, the price step parses the stripped text with every comma removed,
  and what it does next depends on the text only through that parse: an error notice with
  nothing changed when the parse fails or the value is \<open><= 0\<close> or \<open>> 10000000\<close>, and
  otherwise the value stored as the price. So \<open>2,500\<close>, which \<open>float\<close> itself rejects,
  is read as 2500, and \<open>1,000,000\<close> with spaces around it as 1000000.
\<close>

theorem price_commas_removed:
  "product_price_received (m\<lparr>msg_text := Some body\<rparr>) w
     = (case py_float (filter (\<lambda>c. c \<noteq> 44) (strip body)) of
          None \<Rightarrow> Inr (w\<lparr>sent := sent w @ [Answer (msg_id m) InvalidPrice]\<rparr>, Finished)
        | Some prc \<Rightarrow>
            (if float_le prc 0
             then Inr (w\<lparr>sent := sent w @ [Answer (msg_id m) PriceNotPositive]\<rparr>, Finished)
             else if float_gt prc 10000000
             then Inr (w\<lparr>sent := sent w @ [Answer (msg_id m) PriceTooHigh]\<rparr>, Finished)
             else if data_product_type (fsm w) = Some (py ''custom_description'')
             then Inr (w\<lparr>fsm := (fsm w)\<lparr>data_price := Some prc\<rparr>\<rparr>,
                       ShowCustomDescriptionPreview)
             else if data_category (fsm w) \<noteq> None \<and> data_category (fsm w) \<noteq> Some []
             then Inr (w\<lparr>fsm := (fsm w)\<lparr>data_price := Some prc\<rparr>\<rparr>,
                       ShowCategoryFields (the (data_category (fsm w))))
             else Inr (w\<lparr>fsm := (fsm w)\<lparr>data_price := Some prc,
                                          current_state := Some waiting_category\<rparr>,
                         sent := sent w @ [Answer (msg_id m) (PriceSavedAskCategory prc)]\<rparr>,
                       Finished)))
   \<and> py_float (py ''2,500'') = None
   \<and> py_float (filter (\<lambda>c. c \<noteq> 44) (strip (py ''2,500''))) = Some (Finite 2500)
   \<and> py_float (filter (\<lambda>c. c \<noteq> 44) (strip (py '' 1,000,000 ''))) = Some (Finite 1000000)
   \<and> product_price_received (m\<lparr>msg_text := Some (py ''2,500'')\<rparr>)
         (w\<lparr>fsm := (fsm w)\<lparr>data_product_type := Some (py ''custom_description'')\<rparr>\<rparr>)
       = Inr (w\<lparr>fsm := (fsm w)\<lparr>data_product_type := Some (py ''custom_description''),
                                   data_price := Some (Finite 2500)\<rparr>\<rparr>,
              ShowCustomDescriptionPreview)
   \<and> product_price_received (m\<lparr>msg_text := Some (py '' 1,000,000 '')\<rparr>)
         (w\<lparr>fsm := (fsm w)\<lparr>data_product_type := Some (py ''custom_description'')\<rparr>\<rparr>)
       = Inr (w\<lparr>fsm := (fsm w)\<lparr>data_product_type := Some (py ''custom_description''),
                                   data_price := Some (Finite 1000000)\<rparr>\<rparr>,
              ShowCustomDescriptionPreview)"
proof -
  have ts: "truthy_str v \<longleftrightarrow> v \<noteq> None \<and> v \<noteq> Some []" for v
    by (cases v) simp_all
  have general: "product_price_received (m\<lparr>msg_text := Some body\<rparr>) w
     = (case py_float (filter (\<lambda>c. c \<noteq> 44) (strip body)) of
          None \<Rightarrow> Inr (w\<lparr>sent := sent w @ [Answer (msg_id m) InvalidPrice]\<rparr>, Finished)
        | Some prc \<Rightarrow>
            (if float_le prc 0
             then Inr (w\<lparr>sent := sent w @ [Answer (msg_id m) PriceNotPositive]\<rparr>, Finished)
             else if float_gt prc 10000000
             then Inr (w\<lparr>sent := sent w @ [Answer (msg_id m) PriceTooHigh]\<rparr>, Finished)
             else if data_product_type (fsm w) = Some (py ''custom_description'')
             then Inr (w\<lparr>fsm := (fsm w)\<lparr>data_price := Some prc\<rparr>\<rparr>,
                       ShowCustomDescriptionPreview)
             else if data_category (fsm w) \<noteq> None \<and> data_category (fsm w) \<noteq> Some []
             then Inr (w\<lparr>fsm := (fsm w)\<lparr>data_price := Some prc\<rparr>\<rparr>,
                       ShowCategoryFields (the (data_category (fsm w))))
             else Inr (w\<lparr>fsm := (fsm w)\<lparr>data_price := Some prc,
                                          current_state := Some waiting_category\<rparr>,
                         sent := sent w @ [Answer (msg_id m) (PriceSavedAskCategory prc)]\<rparr>,
                       Finished)))"
    by (cases "data_product_type (fsm w)")
       (auto simp: product_price_received_def remove_char_def send_def get_product_type_def
                   Let_def ts split: option.splits)
  have raw: "py_float (py ''2,500'') = None"
    by (simp add: py_float_def strip_numeric_def isspace_numeric_def isspace_def lower_def
          float_number_def mantissa_def isdigit_def decimal_def)
  have a: "py_float (filter (\<lambda>c. c \<noteq> 44) (strip (py ''2,500''))) = Some (Finite 2500)"
    by (simp add: py_float_def strip_def strip_numeric_def isspace_numeric_def isspace_def
          lower_def float_number_def mantissa_def isdigit_def decimal_def)
  have b: "py_float (filter (\<lambda>c. c \<noteq> 44) (strip (py '' 1,000,000 ''))) = Some (Finite 1000000)"
    by (simp add: py_float_def strip_def strip_numeric_def isspace_numeric_def isspace_def
          lower_def float_number_def mantissa_def isdigit_def decimal_def)
  have c: "product_price_received (m\<lparr>msg_text := Some (py ''2,500'')\<rparr>)
         (w\<lparr>fsm := (fsm w)\<lparr>data_product_type := Some (py ''custom_description'')\<rparr>\<rparr>)
       = Inr (w\<lparr>fsm := (fsm w)\<lparr>data_product_type := Some (py ''custom_description''),
                                   data_price := Some (Finite 2500)\<rparr>\<rparr>,
              ShowCustomDescriptionPreview)"
    by (simp add: product_price_received_def remove_char_def get_product_type_def Let_def
          py_float_def strip_def strip_numeric_def isspace_numeric_def isspace_def lower_def
          float_number_def mantissa_def isdigit_def decimal_def)
  have d: "product_price_received (m\<lparr>msg_text := Some (py '' 1,000,000 '')\<rparr>)
         (w\<lparr>fsm := (fsm w)\<lparr>data_product_type := Some (py ''custom_description'')\<rparr>\<rparr>)
       = Inr (w\<lparr>fsm := (fsm w)\<lparr>data_product_type := Some (py ''custom_description''),
                                   data_price := Some (Finite 1000000)\<rparr>\<rparr>,
              ShowCustomDescriptionPreview)"
    by (simp add: product_price_received_def remove_char_def get_product_type_def Let_def
          py_float_def strip_def strip_numeric_def isspace_numeric_def isspace_def lower_def
          float_number_def mantissa_def isdigit_def decimal_def)
  show ?thesis
    using general raw a b c d by (intro conjI)
qed

end
